theory Spec2Isabelle
  imports Complex_Main "HOL-Library.Signed_Division"
begin

section \<open>Dates on the host's local clock\<close>

text \<open>
  A JavaScript \<open>Date\<close> is an instant: milliseconds since the epoch, an integer. The
  calculators read it through the host's local clock (\<open>getHours\<close>, \<open>getMinutes\<close>,
  \<open>setDate\<close>, \<open>setHours\<close>, \<open>setMinutes\<close>, \<open>getFullYear\<close>). The host is modelled
  with a fixed offset from UTC, in minutes (\<open>tzMinutes\<close>, local = UTC + offset), so a
  calendar day is always 86400000 ms long. Not modelled: daylight-saving transitions,
  the invalid date (NaN time value) and the range limit of \<open>Date\<close>.
  Coordinates are JavaScript numbers; they are modelled as reals (every finite double is
  one), which leaves out NaN and the infinities.
\<close>

type_synonym Date = int

definition msPerMinute :: int where "msPerMinute = 1000 * 60"
definition msPerHour :: int where "msPerHour = 1000 * 60 * 60"
definition msPerDay :: int where "msPerDay = 1000 * 60 * 60 * 24"

text \<open>What a call of the external sunrise/sunset library can do: return a date, return
  nothing (\<open>null\<close>), or throw. A thrown value is an \<open>Error\<close> with its message, or
  anything else.\<close>

datatype thrown = Error string | NonError

type_synonym solarOracle = "real \<Rightarrow> real \<Rightarrow> Date \<Rightarrow> thrown + Date option"

record host =
  getSunset :: solarOracle
  getSunrise :: solarOracle
  tzMinutes :: int
  intlTimeZone :: "string option"
  toLocaleTimeString :: "Date \<Rightarrow> string"

text \<open>\<open>intlTimeZone\<close> is \<open>Intl.DateTimeFormat().resolvedOptions().timeZone\<close>, \<open>None\<close> when
  that throws; \<open>toLocaleTimeString\<close> is the host's en-US 12-hour rendering of a time.\<close>

definition localTime :: "host \<Rightarrow> Date \<Rightarrow> int" where
  "localTime h d = d + tzMinutes h * msPerMinute"

definition getHours :: "host \<Rightarrow> Date \<Rightarrow> int" where
  "getHours h d = (localTime h d div msPerHour) mod 24"

definition getMinutes :: "host \<Rightarrow> Date \<Rightarrow> int" where
  "getMinutes h d = (localTime h d div msPerMinute) mod 60"

text \<open>\<open>d.setMinutes(m, s, ms)\<close>: same local hour, the given minutes, seconds and
  milliseconds.\<close>

definition setMinutes :: "host \<Rightarrow> Date \<Rightarrow> int \<Rightarrow> int \<Rightarrow> int \<Rightarrow> Date" where
  "setMinutes h d m s ms =
     (localTime h d div msPerHour) * msPerHour + m * msPerMinute + s * 1000 + ms
       - tzMinutes h * msPerMinute"

text \<open>\<open>d.setHours(hr, m, s, ms)\<close>: same local day; an hour of 24 lands on the next day.\<close>

definition setHours :: "host \<Rightarrow> Date \<Rightarrow> int \<Rightarrow> int \<Rightarrow> int \<Rightarrow> int \<Rightarrow> Date" where
  "setHours h d hr m s ms =
     (localTime h d div msPerDay) * msPerDay + hr * msPerHour + m * msPerMinute + s * 1000 + ms
       - tzMinutes h * msPerMinute"

text \<open>\<open>date.setDate(date.getDate() + i)\<close> on a copy of \<open>d\<close>: the same local time of day,
  \<open>i\<close> calendar days later.\<close>

definition addDays :: "Date \<Rightarrow> int \<Rightarrow> Date" where
  "addDays d i = d + i * msPerDay"

text \<open>The Gregorian year of a day number (days since 1970-01-01), and the day number of
  the first of January of a year, as the language standard defines \<open>DayFromYear\<close>.\<close>

definition yearFromDay :: "int \<Rightarrow> int" where
  "yearFromDay z =
     (let z' = z + 719468;
          era = z' div 146097;
          doe = z' mod 146097;
          yoe = (doe - doe div 1460 + doe div 36524 - doe div 146096) div 365;
          doy = doe - (365 * yoe + yoe div 4 - yoe div 100);
          mp = (5 * doy + 2) div 153
      in yoe + era * 400 + (if mp < 10 then 0 else 1))"

definition dayFromYear :: "int \<Rightarrow> int" where
  "dayFromYear y =
     365 * (y - 1970) + (y - 1969) div 4 - (y - 1901) div 100 + (y - 1601) div 400"

definition getFullYear :: "host \<Rightarrow> Date \<Rightarrow> int" where
  "getFullYear h d = yearFromDay (localTime h d div msPerDay)"

text \<open>\<open>new Date(year, 0, 0)\<close>: local midnight of the day before the first of January;
  a year from 0 to 99 is read as 1900 + year.\<close>

definition newDateYear00 :: "host \<Rightarrow> int \<Rightarrow> Date" where
  "newDateYear00 h y =
     (let y' = (if 0 \<le> y \<and> y \<le> 99 then 1900 + y else y)
      in (dayFromYear y' - 1) * msPerDay - tzMinutes h * msPerMinute)"

definition getDayOfYear :: "host \<Rightarrow> Date \<Rightarrow> int" where
  "getDayOfYear h date =
     (let start = newDateYear00 h (getFullYear h date);
          diff = date - start
      in diff div (1000 * 60 * 60 * 24))"

section \<open>The data model (types.ts)\<close>

datatype source = geolocation | manual | search

text \<open>The optional \<open>timezone\<close> of a location is the field \<open>location_timezone\<close>: the
  name \<open>timezone\<close> is the field of \<open>SunsetInfo\<close>.\<close>

record Location =
  latitude :: real
  longitude :: real
  name :: "string option"
  location_timezone :: "string option"
  source :: source

record SunsetInfo =
  sunset :: Date
  sunrise :: Date
  location :: Location
  date :: Date
  timezone :: string
  hasSunset :: bool

datatype polarType = midnight_sun | polar_night

record SunCalculationResult =
  success :: bool
  sunsetInfo :: "SunsetInfo option"
  error :: "string option"
  isPolarRegion :: "bool option"
  polarType :: "polarType option"

section \<open>sunset-calculator.ts\<close>

text \<open>Decimal digits of a natural number (\<open>Number.prototype.toString\<close> on a non-negative
  integer) and \<open>padStart(2, '0')\<close>.\<close>

fun toString :: "nat \<Rightarrow> string" where
  "toString n =
     (if n < 10 then [char_of (48 + n)] else toString (n div 10) @ [char_of (48 + n mod 10)])"

definition padStart2 :: "string \<Rightarrow> string" where
  "padStart2 s = replicate (2 - length s) CHR ''0'' @ s"

text \<open>\<open>Math.round\<close> rounds a half up.\<close>

definition mathRound :: "real \<Rightarrow> int" where
  "mathRound x = \<lfloor>x + 1 / 2\<rfloor>"

definition getTimezone :: "host \<Rightarrow> Location \<Rightarrow> string" where
  "getTimezone h loc =
     (case intlTimeZone h of
        Some z \<Rightarrow> z
      | None \<Rightarrow>
          (let hoursFromUTC = mathRound (longitude loc / 15);
               sign = (if hoursFromUTC \<ge> 0 then ''+'' else ''-'');
               absHours = nat \<bar>hoursFromUTC\<bar>
           in ''UTC'' @ sign @ padStart2 (toString absHours) @ '':00''))"

text \<open>\<open>handlePolarRegion\<close> has no handler of its own: a throw of the library leaves it
  (\<open>Inl\<close>) and is caught by \<open>calculateSunsetInfo\<close>. The library is asked for the sunset
  first, then for the sunrise.\<close>

definition handlePolarRegion :: "host \<Rightarrow> Location \<Rightarrow> Date \<Rightarrow> thrown + SunCalculationResult" where
  "handlePolarRegion h loc d =
     (let dayOfYear = getDayOfYear h d;
          isNorthernHemisphere = (latitude loc > 0);
          isSummerSolstice = (dayOfYear \<ge> 150 \<and> dayOfYear \<le> 200);
          isWinterSolstice = (dayOfYear \<ge> 340 \<or> dayOfYear \<le> 50);
          ptype =
            (if isNorthernHemisphere
             then (if isSummerSolstice then midnight_sun
                   else if isWinterSolstice then polar_night else midnight_sun)
             else (if isSummerSolstice then polar_night
                   else if isWinterSolstice then midnight_sun else polar_night))
      in case getSunset h (latitude loc) (longitude loc) d of
           Inl e \<Rightarrow> Inl e
         | Inr sunsetV \<Rightarrow>
            (case getSunrise h (latitude loc) (longitude loc) d of
               Inl e \<Rightarrow> Inl e
             | Inr sunriseV \<Rightarrow>
                (case (sunsetV, sunriseV) of
                   (Some ss, Some sr) \<Rightarrow>
                     Inr \<lparr> success = True,
                           sunsetInfo = Some \<lparr> sunset = ss, sunrise = sr, location = loc,
                                               date = d, timezone = getTimezone h loc,
                                               hasSunset = True \<rparr>,
                           error = None, isPolarRegion = Some True, polarType = None \<rparr>
                 | _ \<Rightarrow>
                     Inr \<lparr> success = False, sunsetInfo = None,
                           error = Some ((if ptype = midnight_sun then ''Midnight sun''
                                          else ''Polar night'')
                                         @ '' - no sunset during this period''),
                           isPolarRegion = Some True, polarType = Some ptype \<rparr>)))"

definition calculateSunsetInfo :: "host \<Rightarrow> Location \<Rightarrow> Date \<Rightarrow> SunCalculationResult" where
  "calculateSunsetInfo h loc d =
     (case (if \<bar>latitude loc\<bar> > 66.5 then handlePolarRegion h loc d
            else (case getSunset h (latitude loc) (longitude loc) d of
                    Inl e \<Rightarrow> Inl e
                  | Inr sunsetV \<Rightarrow>
                     (case getSunrise h (latitude loc) (longitude loc) d of
                        Inl e \<Rightarrow> Inl e
                      | Inr sunriseV \<Rightarrow>
                         (case (sunsetV, sunriseV) of
                            (Some ss, Some sr) \<Rightarrow>
                              Inr \<lparr> success = True,
                                    sunsetInfo = Some \<lparr> sunset = ss, sunrise = sr,
                                                        location = loc, date = d,
                                                        timezone = getTimezone h loc,
                                                        hasSunset = True \<rparr>,
                                    error = None, isPolarRegion = None, polarType = None \<rparr>
                          | _ \<Rightarrow>
                              Inr \<lparr> success = False, sunsetInfo = None,
                                    error = Some ''Unable to calculate sunset times for this location and date'',
                                    isPolarRegion = Some False, polarType = None \<rparr>))))
      of Inr r \<Rightarrow> r
       | Inl e \<Rightarrow>
           \<lparr> success = False, sunsetInfo = None,
             error = Some (case e of Error m \<Rightarrow> m
                                   | NonError \<Rightarrow> ''Unknown error calculating sunset''),
             isPolarRegion = None, polarType = None \<rparr>)"

text \<open>\<open>calculateSunsetProgression\<close>: the loop \<open>for (let i = 0; i < days; i++)\<close>, with the
  counter and the list built so far as arguments.\<close>

function calculateSunsetProgression_from ::
  "host \<Rightarrow> Location \<Rightarrow> Date \<Rightarrow> int \<Rightarrow> int \<Rightarrow> SunCalculationResult list \<Rightarrow> SunCalculationResult list"
where
  "calculateSunsetProgression_from h loc startDate days i results =
     (if i < days
      then calculateSunsetProgression_from h loc startDate days (i + 1)
             (results @ [calculateSunsetInfo h loc (addDays startDate i)])
      else results)"
  by pat_completeness auto
termination
  by (relation "measure (\<lambda>(h, loc, startDate, days, i, results). nat (days - i))") auto

declare calculateSunsetProgression_from.simps [simp del]

definition calculateSunsetProgression ::
  "host \<Rightarrow> Location \<Rightarrow> Date \<Rightarrow> int \<Rightarrow> SunCalculationResult list" where
  "calculateSunsetProgression h loc startDate days =
     calculateSunsetProgression_from h loc startDate days 0 []"

text \<open>The value \<open>findSunsetAfterTime\<close> returns, \<open>{ date, sunsetTime }\<close>; its \<open>date\<close> is
  the field \<open>match_date\<close>.\<close>

record SunsetMatch =
  match_date :: Date
  sunsetTime :: Date

text \<open>The scan of \<open>findSunsetAfterTime\<close> from day offset \<open>i\<close>.\<close>

function findSunsetAfterTime_from ::
  "host \<Rightarrow> Location \<Rightarrow> int \<Rightarrow> Date \<Rightarrow> int \<Rightarrow> int \<Rightarrow> SunsetMatch option"
where
  "findSunsetAfterTime_from h loc targetTotalMinutes startDate maxDays i =
     (if i < maxDays
      then (let checkDate = addDays startDate i;
                result = calculateSunsetInfo h loc checkDate
            in if success result \<and> sunsetInfo result \<noteq> None
               then (let sunsetV = sunset (the (sunsetInfo result));
                         sunsetHours = getHours h sunsetV;
                         sunsetMinutes = getMinutes h sunsetV;
                         sunsetTotalMinutes = sunsetHours * 60 + sunsetMinutes
                     in if sunsetTotalMinutes \<ge> targetTotalMinutes
                        then Some \<lparr> match_date = checkDate, sunsetTime = sunsetV \<rparr>
                        else findSunsetAfterTime_from h loc targetTotalMinutes startDate maxDays (i + 1))
               else findSunsetAfterTime_from h loc targetTotalMinutes startDate maxDays (i + 1))
      else None)"
  by pat_completeness auto
termination
  by (relation "measure (\<lambda>(h, loc, t, startDate, maxDays, i). nat (maxDays - i))") auto

declare findSunsetAfterTime_from.simps [simp del]

definition findSunsetAfterTime ::
  "host \<Rightarrow> Location \<Rightarrow> Date \<Rightarrow> Date \<Rightarrow> int \<Rightarrow> SunsetMatch option" where
  "findSunsetAfterTime h loc targetTime startDate maxDays =
     (let targetHours = getHours h targetTime;
          targetMinutes = getMinutes h targetTime;
          targetTotalMinutes = targetHours * 60 + targetMinutes
      in findSunsetAfterTime_from h loc targetTotalMinutes startDate maxDays 0)"

section \<open>GeolocationService.isValidLocation\<close>

definition isValidLocation :: "real \<Rightarrow> real \<Rightarrow> bool" where
  "isValidLocation lat lon \<longleftrightarrow> lat \<ge> -90 \<and> lat \<le> 90 \<and> lon \<ge> -180 \<and> lon \<le> 180"

section \<open>milestone-calculator.ts\<close>

datatype milestoneType = hour | half_hour | exact_sunset | golden_hour

record Milestone =
  time :: Date
  type :: milestoneType
  label :: string
  isPrimary :: bool

definition getMilestoneType :: "host \<Rightarrow> Date \<Rightarrow> milestoneType" where
  "getMilestoneType h t =
     (let minutes = getMinutes h t
      in if minutes = 0 then hour else if minutes = 30 then half_hour else exact_sunset)"

definition formatMilestoneLabel :: "host \<Rightarrow> Date \<Rightarrow> milestoneType \<Rightarrow> string" where
  "formatMilestoneLabel h t ty =
     (if ty = exact_sunset then ''Sunset''
      else if ty = golden_hour then ''Golden Hour''
      else toLocaleTimeString h t)"

text \<open>The value \<open>getNextMilestone\<close> returns; its \<open>sunsetInfo\<close> and \<open>error\<close> are the
  fields \<open>next_sunsetInfo\<close> and \<open>next_error\<close>.\<close>

record NextMilestone =
  milestone :: "Milestone option"
  next_sunsetInfo :: "SunsetInfo option"
  daysUntil :: int
  next_error :: "string option"

text \<open>\<open>Math.ceil((a - b) / (1000 * 60 * 60 * 24))\<close> on two instants.\<close>

definition ceilDays :: "Date \<Rightarrow> Date \<Rightarrow> int" where
  "ceilDays a b = \<lceil>real_of_int (a - b) / (1000 * 60 * 60 * 24)\<rceil>"

text \<open>The variable \<open>nextMilestoneTime\<close> of \<open>getNextMilestone\<close>, from today's sunset.\<close>

definition nextMilestoneTime :: "host \<Rightarrow> Date \<Rightarrow> Date" where
  "nextMilestoneTime h todaySunset =
     (let sunsetHour = getHours h todaySunset;
          sunsetMinute = getMinutes h todaySunset
      in if sunsetMinute < 30
         then setMinutes h todaySunset 30 0 0
         else setHours h todaySunset (sunsetHour + 1) 0 0 0)"

text \<open>In \<open>getNextMilestone\<close>, reading \<open>todayResult.sunsetInfo!.sunset\<close> of a successful
  result without sunset info would throw a TypeError, which the handler turns into an
  error result carrying the engine's message.\<close>

definition typeErrorMessage :: string where
  "typeErrorMessage = ''Cannot read properties of undefined (reading 'sunset')''"

definition getNextMilestone :: "host \<Rightarrow> Location \<Rightarrow> Date \<Rightarrow> NextMilestone" where
  "getNextMilestone h loc currentDate =
     (let todayResult = calculateSunsetInfo h loc currentDate
      in if \<not> success todayResult
         then \<lparr> milestone = None, next_sunsetInfo = None, daysUntil = 0,
                next_error = error todayResult \<rparr>
         else (case sunsetInfo todayResult of
                 None \<Rightarrow> \<lparr> milestone = None, next_sunsetInfo = None, daysUntil = 0,
                           next_error = Some typeErrorMessage \<rparr>
               | Some todayInfo \<Rightarrow>
                  (let todaySunset = sunset todayInfo;
                       nextTime = nextMilestoneTime h todaySunset
                   in case findSunsetAfterTime h loc nextTime currentDate 365 of
                        None \<Rightarrow>
                          \<lparr> milestone = None, next_sunsetInfo = None, daysUntil = 0,
                            next_error = Some ''Could not find when sunset reaches next milestone'' \<rparr>
                      | Some result \<Rightarrow>
                          (let days = ceilDays (match_date result) currentDate;
                               m = \<lparr> time = nextTime,
                                     type = getMilestoneType h nextTime,
                                     label = formatMilestoneLabel h nextTime
                                               (getMilestoneType h nextTime),
                                     isPrimary = True \<rparr>;
                               futureSunsetInfo = calculateSunsetInfo h loc (match_date result)
                           in \<lparr> milestone = Some m,
                                next_sunsetInfo =
                                  (if success futureSunsetInfo then sunsetInfo futureSunsetInfo
                                   else Some todayInfo),
                                daysUntil = days, next_error = None \<rparr>))))"

text \<open>An entry of \<open>getUpcomingMilestones\<close>: a milestone with \<open>targetDate\<close> and
  \<open>daysUntil\<close> (the field \<open>upcoming_daysUntil\<close>).\<close>

record UpcomingMilestone = Milestone +
  targetDate :: Date
  upcoming_daysUntil :: int

text \<open>The loop of \<open>getUpcomingMilestones\<close>, with the counter, \<open>currentMilestone\<close> and
  the list built so far as arguments; \<open>break\<close> returns the list.\<close>

function getUpcomingMilestones_from ::
  "host \<Rightarrow> Location \<Rightarrow> Date \<Rightarrow> int \<Rightarrow> int \<Rightarrow> Date \<Rightarrow> UpcomingMilestone list \<Rightarrow> UpcomingMilestone list"
where
  "getUpcomingMilestones_from h loc currentDate count i currentMilestone milestones =
     (if i < count
      then (let cm = currentMilestone + 30 * 60 * 1000
            in if getHours h cm > 21 \<or> (getHours h cm = 21 \<and> getMinutes h cm > 30)
               then milestones
               else (case findSunsetAfterTime h loc cm currentDate 365 of
                       Some result \<Rightarrow>
                         getUpcomingMilestones_from h loc currentDate count (i + 1) cm
                           (milestones @
                             [\<lparr> time = cm,
                                type = getMilestoneType h cm,
                                label = formatMilestoneLabel h cm (getMilestoneType h cm),
                                isPrimary = False,
                                targetDate = sunsetTime result,
                                upcoming_daysUntil = ceilDays (sunsetTime result) currentDate \<rparr>])
                     | None \<Rightarrow>
                         getUpcomingMilestones_from h loc currentDate count (i + 1) cm milestones))
      else milestones)"
  by pat_completeness auto
termination
  by (relation "measure (\<lambda>(h, loc, currentDate, count, i, cm, ms). nat (count - i))") auto

declare getUpcomingMilestones_from.simps [simp del]

definition getUpcomingMilestones ::
  "host \<Rightarrow> Location \<Rightarrow> Date \<Rightarrow> int \<Rightarrow> UpcomingMilestone list" where
  "getUpcomingMilestones h loc currentDate count =
     (case milestone (getNextMilestone h loc currentDate) of
        None \<Rightarrow> []
      | Some m \<Rightarrow> getUpcomingMilestones_from h loc currentDate count 0 (time m) [])"

record TimeRemaining =
  days :: int
  hours :: int
  minutes :: int
  seconds :: int



section \<open>The library as a collaborator with state\<close>

text \<open>
  Above, a call of the library is a function of its arguments, so asking twice gives the
  same answer. Nothing in the calculators relies on that: they call an imported function.
  Here the same code is read with a library that has a state of its own, threaded through
  the calls in the order the code makes them (sunset first, then sunrise; today's query,
  then the days of the search, then the query for the date found). The host \<open>h\<close> still
  gives the clock and the time zone; its own \<open>getSunset\<close> and \<open>getSunrise\<close> are not
  consulted. \<open>statelessLibrary\<close> is the library of a host seen this way.
\<close>

type_synonym 's statefulOracle = "'s \<Rightarrow> real \<Rightarrow> real \<Rightarrow> Date \<Rightarrow> (thrown + Date option) \<times> 's"

record 's library =
  sunsetCall :: "'s statefulOracle"
  sunriseCall :: "'s statefulOracle"

definition handlePolarRegionS ::
  "host \<Rightarrow> 's library \<Rightarrow> Location \<Rightarrow> Date \<Rightarrow> 's \<Rightarrow> (thrown + SunCalculationResult) \<times> 's" where
  "handlePolarRegionS h lib loc d s =
     (let dayOfYear = getDayOfYear h d;
          isNorthernHemisphere = (latitude loc > 0);
          isSummerSolstice = (dayOfYear \<ge> 150 \<and> dayOfYear \<le> 200);
          isWinterSolstice = (dayOfYear \<ge> 340 \<or> dayOfYear \<le> 50);
          ptype =
            (if isNorthernHemisphere
             then (if isSummerSolstice then midnight_sun
                   else if isWinterSolstice then polar_night else midnight_sun)
             else (if isSummerSolstice then polar_night
                   else if isWinterSolstice then midnight_sun else polar_night))
      in case sunsetCall lib s (latitude loc) (longitude loc) d of
           (Inl e, s1) \<Rightarrow> (Inl e, s1)
         | (Inr sunsetV, s1) \<Rightarrow>
            (case sunriseCall lib s1 (latitude loc) (longitude loc) d of
               (Inl e, s2) \<Rightarrow> (Inl e, s2)
             | (Inr sunriseV, s2) \<Rightarrow>
                (case (sunsetV, sunriseV) of
                   (Some ss, Some sr) \<Rightarrow>
                     (Inr \<lparr> success = True,
                            sunsetInfo = Some \<lparr> sunset = ss, sunrise = sr, location = loc,
                                                date = d, timezone = getTimezone h loc,
                                                hasSunset = True \<rparr>,
                            error = None, isPolarRegion = Some True, polarType = None \<rparr>, s2)
                 | _ \<Rightarrow>
                     (Inr \<lparr> success = False, sunsetInfo = None,
                            error = Some ((if ptype = midnight_sun then ''Midnight sun''
                                           else ''Polar night'')
                                          @ '' - no sunset during this period''),
                            isPolarRegion = Some True, polarType = Some ptype \<rparr>, s2))))"

definition calculateSunsetInfoS ::
  "host \<Rightarrow> 's library \<Rightarrow> Location \<Rightarrow> Date \<Rightarrow> 's \<Rightarrow> SunCalculationResult \<times> 's" where
  "calculateSunsetInfoS h lib loc d s =
     (case (if \<bar>latitude loc\<bar> > 66.5 then handlePolarRegionS h lib loc d s
            else (case sunsetCall lib s (latitude loc) (longitude loc) d of
                    (Inl e, s1) \<Rightarrow> (Inl e, s1)
                  | (Inr sunsetV, s1) \<Rightarrow>
                     (case sunriseCall lib s1 (latitude loc) (longitude loc) d of
                        (Inl e, s2) \<Rightarrow> (Inl e, s2)
                      | (Inr sunriseV, s2) \<Rightarrow>
                         (case (sunsetV, sunriseV) of
                            (Some ss, Some sr) \<Rightarrow>
                              (Inr \<lparr> success = True,
                                     sunsetInfo = Some \<lparr> sunset = ss, sunrise = sr,
                                                         location = loc, date = d,
                                                         timezone = getTimezone h loc,
                                                         hasSunset = True \<rparr>,
                                     error = None, isPolarRegion = None, polarType = None \<rparr>, s2)
                          | _ \<Rightarrow>
                              (Inr \<lparr> success = False, sunsetInfo = None,
                                     error = Some ''Unable to calculate sunset times for this location and date'',
                                     isPolarRegion = Some False, polarType = None \<rparr>, s2)))))
      of (Inr r, s') \<Rightarrow> (r, s')
       | (Inl e, s') \<Rightarrow>
           (\<lparr> success = False, sunsetInfo = None,
              error = Some (case e of Error m \<Rightarrow> m
                                    | NonError \<Rightarrow> ''Unknown error calculating sunset''),
              isPolarRegion = None, polarType = None \<rparr>, s'))"

function findSunsetAfterTimeS_from ::
  "host \<Rightarrow> 's library \<Rightarrow> Location \<Rightarrow> int \<Rightarrow> Date \<Rightarrow> int \<Rightarrow> int \<Rightarrow> 's \<Rightarrow> SunsetMatch option \<times> 's"
where
  "findSunsetAfterTimeS_from h lib loc targetTotalMinutes startDate maxDays i s =
     (if i < maxDays
      then (let checkDate = addDays startDate i;
                (result, s') = calculateSunsetInfoS h lib loc checkDate s
            in if success result \<and> sunsetInfo result \<noteq> None
               then (let sunsetV = sunset (the (sunsetInfo result));
                         sunsetHours = getHours h sunsetV;
                         sunsetMinutes = getMinutes h sunsetV;
                         sunsetTotalMinutes = sunsetHours * 60 + sunsetMinutes
                     in if sunsetTotalMinutes \<ge> targetTotalMinutes
                        then (Some \<lparr> match_date = checkDate, sunsetTime = sunsetV \<rparr>, s')
                        else findSunsetAfterTimeS_from h lib loc targetTotalMinutes startDate
                               maxDays (i + 1) s')
               else findSunsetAfterTimeS_from h lib loc targetTotalMinutes startDate
                      maxDays (i + 1) s')
      else (None, s))"
  by pat_completeness auto
termination
  by (relation "measure (\<lambda>(h, lib, loc, t, startDate, maxDays, i, s). nat (maxDays - i))") auto

declare findSunsetAfterTimeS_from.simps [simp del]

definition findSunsetAfterTimeS ::
  "host \<Rightarrow> 's library \<Rightarrow> Location \<Rightarrow> Date \<Rightarrow> Date \<Rightarrow> int \<Rightarrow> 's \<Rightarrow> SunsetMatch option \<times> 's" where
  "findSunsetAfterTimeS h lib loc targetTime startDate maxDays s =
     (let targetHours = getHours h targetTime;
          targetMinutes = getMinutes h targetTime;
          targetTotalMinutes = targetHours * 60 + targetMinutes
      in findSunsetAfterTimeS_from h lib loc targetTotalMinutes startDate maxDays 0 s)"

definition getNextMilestoneS ::
  "host \<Rightarrow> 's library \<Rightarrow> Location \<Rightarrow> Date \<Rightarrow> 's \<Rightarrow> NextMilestone \<times> 's" where
  "getNextMilestoneS h lib loc currentDate s =
     (let (todayResult, s1) = calculateSunsetInfoS h lib loc currentDate s
      in if \<not> success todayResult
         then (\<lparr> milestone = None, next_sunsetInfo = None, daysUntil = 0,
                 next_error = error todayResult \<rparr>, s1)
         else (case sunsetInfo todayResult of
                 None \<Rightarrow> (\<lparr> milestone = None, next_sunsetInfo = None, daysUntil = 0,
                            next_error = Some typeErrorMessage \<rparr>, s1)
               | Some todayInfo \<Rightarrow>
                  (let todaySunset = sunset todayInfo;
                       nextTime = nextMilestoneTime h todaySunset
                   in case findSunsetAfterTimeS h lib loc nextTime currentDate 365 s1 of
                        (None, s2) \<Rightarrow>
                          (\<lparr> milestone = None, next_sunsetInfo = None, daysUntil = 0,
                             next_error = Some ''Could not find when sunset reaches next milestone'' \<rparr>, s2)
                      | (Some result, s2) \<Rightarrow>
                          (let days = ceilDays (match_date result) currentDate;
                               m = \<lparr> time = nextTime,
                                     type = getMilestoneType h nextTime,
                                     label = formatMilestoneLabel h nextTime
                                               (getMilestoneType h nextTime),
                                     isPrimary = True \<rparr>;
                               (futureSunsetInfo, s3) =
                                  calculateSunsetInfoS h lib loc (match_date result) s2
                           in (\<lparr> milestone = Some m,
                                 next_sunsetInfo =
                                   (if success futureSunsetInfo then sunsetInfo futureSunsetInfo
                                    else Some todayInfo),
                                 daysUntil = days, next_error = None \<rparr>, s3)))))"

definition statelessLibrary :: "host \<Rightarrow> 's library" where
  "statelessLibrary h =
     \<lparr> sunsetCall = (\<lambda>s la lo d. (getSunset h la lo d, s)),
       sunriseCall = (\<lambda>s la lo d. (getSunrise h la lo d, s)) \<rparr>"

section \<open>Vocabulary of the properties\<close>

text \<open>The time of day of an instant on the host's clock, in minutes, as
  \<open>findSunsetAfterTime\<close> compares it: hours * 60 + minutes.\<close>

definition timeOfDay :: "host \<Rightarrow> Date \<Rightarrow> int" where
  "timeOfDay h t = getHours h t * 60 + getMinutes h t"

text \<open>The sunset time of day of a date at a location: \<open>None\<close> when the single-day query
  for that date fails or carries no sunset info.\<close>

definition sunsetTimeOfDay :: "host \<Rightarrow> Location \<Rightarrow> Date \<Rightarrow> int option" where
  "sunsetTimeOfDay h loc d =
     (let result = calculateSunsetInfo h loc d
      in if success result
         then map_option (\<lambda>info. timeOfDay h (sunset info)) (sunsetInfo result)
         else None)"

text \<open>A date qualifies for a target when it has a sunset whose time of day is at or after
  the target's.\<close>

definition qualifies :: "host \<Rightarrow> Location \<Rightarrow> int \<Rightarrow> Date \<Rightarrow> bool" where
  "qualifies h loc targetTotalMinutes d =
     (case sunsetTimeOfDay h loc d of
        None \<Rightarrow> False
      | Some m \<Rightarrow> m \<ge> targetTotalMinutes)"

text \<open>The test that ends the loop of \<open>getUpcomingMilestones\<close>: the candidate is past
  21:30 on the host's clock.\<close>

definition pastLadder :: "host \<Rightarrow> Date \<Rightarrow> bool" where
  "pastLadder h t \<longleftrightarrow> getHours h t > 21 \<or> (getHours h t = 21 \<and> getMinutes h t > 30)"

text \<open>The library returning without a value: both calls return, and the sunset or the
  sunrise is \<open>null\<close>. A call that throws is not this case but \<open>oracleThrows\<close>; the two
  together are what the specification calls no value.\<close>

definition oracleReturnsNull :: "host \<Rightarrow> Location \<Rightarrow> Date \<Rightarrow> bool" where
  "oracleReturnsNull h loc d =
     (case (getSunset h (latitude loc) (longitude loc) d,
            getSunrise h (latitude loc) (longitude loc) d) of
        (Inr ss, Inr sr) \<Rightarrow> ss = None \<or> sr = None
      | _ \<Rightarrow> False)"

text \<open>The library throwing: the value thrown by the first call that throws (the sunset is
  asked first, the sunrise only when that call returns), \<open>None\<close> when both return.\<close>

definition oracleThrows :: "host \<Rightarrow> Location \<Rightarrow> Date \<Rightarrow> thrown option" where
  "oracleThrows h loc d =
     (case getSunset h (latitude loc) (longitude loc) d of
        Inl e \<Rightarrow> Some e
      | Inr ss \<Rightarrow>
          (case getSunrise h (latitude loc) (longitude loc) d of
             Inl e \<Rightarrow> Some e
           | Inr sr \<Rightarrow> None))"

text \<open>The library answering with both times.\<close>

definition oracleValue :: "host \<Rightarrow> Location \<Rightarrow> Date \<Rightarrow> bool" where
  "oracleValue h loc d =
     (case (getSunset h (latitude loc) (longitude loc) d,
            getSunrise h (latitude loc) (longitude loc) d) of
        (Inr (Some ss), Inr (Some sr)) \<Rightarrow> True
      | _ \<Rightarrow> False)"

text \<open>The failure \<open>handlePolarRegion\<close> builds for a polar type, and the generic failure of
  \<open>calculateSunsetInfo\<close>.\<close>

definition polarFailure :: "polarType \<Rightarrow> SunCalculationResult" where
  "polarFailure pt =
     \<lparr> success = False, sunsetInfo = None,
       error = Some (if pt = midnight_sun
                     then ''Midnight sun - no sunset during this period''
                     else ''Polar night - no sunset during this period''),
       isPolarRegion = Some True, polarType = Some pt \<rparr>"

definition genericFailure :: SunCalculationResult where
  "genericFailure =
     \<lparr> success = False, sunsetInfo = None,
       error = Some ''Unable to calculate sunset times for this location and date'',
       isPolarRegion = Some False, polarType = None \<rparr>"

text \<open>The failure the handler of \<open>calculateSunsetInfo\<close> builds from a thrown value: no
  polar flag and no polar type.\<close>

definition caughtFailure :: "thrown \<Rightarrow> SunCalculationResult" where
  "caughtFailure e =
     \<lparr> success = False, sunsetInfo = None,
       error = Some (case e of Error m \<Rightarrow> m
                             | NonError \<Rightarrow> ''Unknown error calculating sunset''),
       isPolarRegion = None, polarType = None \<rparr>"

text \<open>The candidates of \<open>getUpcomingMilestones\<close>: the first \<open>count\<close> 30-minute steps after
  the primary milestone's time, in order; and the entry built for a candidate whose search
  found a match.\<close>

definition upcomingCandidates :: "Date \<Rightarrow> int \<Rightarrow> Date list" where
  "upcomingCandidates t count = map (\<lambda>k. t + (int k + 1) * (30 * 60 * 1000)) [0..<nat count]"

definition upcomingEntry :: "host \<Rightarrow> Date \<Rightarrow> Date \<Rightarrow> SunsetMatch \<Rightarrow> UpcomingMilestone" where
  "upcomingEntry h now t r =
     \<lparr> time = t, type = getMilestoneType h t,
       label = formatMilestoneLabel h t (getMilestoneType h t),
       isPrimary = False, targetDate = sunsetTime r,
       upcoming_daysUntil = ceilDays (sunsetTime r) now \<rparr>"

section \<open>Hosts and locations for the worked examples\<close>

text \<open>A host on UTC whose library puts the sunset of day \<open>k\<close> (since the epoch) at
  \<open>base + step * k\<close> minutes after that day's midnight, and the sunrise at 06:00.\<close>

definition usTime :: "Date \<Rightarrow> string" where
  "usTime d =
     (let hr = (d div msPerHour) mod 24; mi = (d div msPerMinute) mod 60
      in toString (nat (if hr mod 12 = 0 then 12 else hr mod 12)) @ '':'' @
         padStart2 (toString (nat mi)) @ (if hr < 12 then '' AM'' else '' PM''))"

definition driftSunset :: "int \<Rightarrow> int \<Rightarrow> solarOracle" where
  "driftSunset base step la lo d =
     Inr (Some ((d div msPerDay) * msPerDay + (base + step * (d div msPerDay)) * msPerMinute))"

definition driftHost :: "int \<Rightarrow> int \<Rightarrow> host" where
  "driftHost base step =
     \<lparr> getSunset = driftSunset base step, getSunrise = driftSunset 360 0,
       tzMinutes = 0, intlTimeZone = Some ''UTC'', toLocaleTimeString = usTime \<rparr>"

text \<open>A host whose library never has a value, and one whose library has none on the
  first two days only.\<close>

definition silentHost :: host where
  "silentHost =
     \<lparr> getSunset = (\<lambda>la lo d. Inr None), getSunrise = (\<lambda>la lo d. Inr None),
       tzMinutes = 0, intlTimeZone = Some ''UTC'', toLocaleTimeString = usTime \<rparr>"

definition lateHost :: host where
  "lateHost =
     \<lparr> getSunset = (\<lambda>la lo d. if d div msPerDay < 2 then Inr None else driftSunset 1180 10 la lo d),
       getSunrise = driftSunset 360 0,
       tzMinutes = 0, intlTimeZone = Some ''UTC'', toLocaleTimeString = usTime \<rparr>"

text \<open>A host whose library throws on every call, and one whose library returns no sunset
  and throws when asked for the sunrise.\<close>

definition failingHost :: host where
  "failingHost =
     \<lparr> getSunset = (\<lambda>la lo d. Inl (Error ''library failure'')),
       getSunrise = (\<lambda>la lo d. Inl (Error ''library failure'')),
       tzMinutes = 0, intlTimeZone = Some ''UTC'', toLocaleTimeString = usTime \<rparr>"

definition halfFailingHost :: host where
  "halfFailingHost =
     \<lparr> getSunset = (\<lambda>la lo d. Inr None),
       getSunrise = (\<lambda>la lo d. Inl NonError),
       tzMinutes = 0, intlTimeZone = Some ''UTC'', toLocaleTimeString = usTime \<rparr>"

text \<open>A host whose library throws on coordinates out of range.\<close>

definition throwingHost :: host where
  "throwingHost =
     \<lparr> getSunset = (\<lambda>la lo d. if isValidLocation la lo then driftSunset 1180 10 la lo d
                               else Inl (Error ''Invalid coordinates'')),
       getSunrise = driftSunset 360 0,
       tzMinutes = 0, intlTimeZone = Some ''UTC'', toLocaleTimeString = usTime \<rparr>"

text \<open>A library that answers like \<open>driftSunset\<close> on its first calls and has no value from
  call number \<open>n\<close> on; the state counts the calls.\<close>

definition fadingLibrary :: "nat \<Rightarrow> int \<Rightarrow> int \<Rightarrow> nat library" where
  "fadingLibrary n base step =
     \<lparr> sunsetCall = (\<lambda>k la lo d. (if k < n then driftSunset base step la lo d else Inr None, Suc k)),
       sunriseCall = (\<lambda>k la lo d. (if k < n then driftSunset 360 0 la lo d else Inr None, Suc k)) \<rparr>"

definition seattle :: Location where
  "seattle = \<lparr> latitude = 47.6062, longitude = -122.3321, name = Some ''Seattle, WA'',
               location_timezone = None, source = manual \<rparr>"

definition longyearbyen :: Location where
  "longyearbyen = \<lparr> latitude = 78.2232, longitude = 15.6267, name = Some ''Longyearbyen'',
                    location_timezone = None, source = manual \<rparr>"

definition mcmurdo :: Location where
  "mcmurdo = \<lparr> latitude = -77.85, longitude = 166.67, name = Some ''McMurdo Station'',
               location_timezone = None, source = manual \<rparr>"

definition invalidLocation :: Location where
  "invalidLocation = \<lparr> latitude = 999, longitude = 999, name = None,
                       location_timezone = None, source = manual \<rparr>"

section \<open>The single-day query\<close>

lemma calculateSunsetInfo_polar_noValue:
  assumes "oracleReturnsNull h loc d" "\<bar>latitude loc\<bar> > 66.5"
  shows "calculateSunsetInfo h loc d =
           polarFailure
             (let doy = getDayOfYear h d
              in if latitude loc > 0
                 then (if 150 \<le> doy \<and> doy \<le> 200 then midnight_sun
                       else if doy \<ge> 340 \<or> doy \<le> 50 then polar_night else midnight_sun)
                 else (if 150 \<le> doy \<and> doy \<le> 200 then polar_night
                       else if doy \<ge> 340 \<or> doy \<le> 50 then midnight_sun else polar_night))"
  using assms
  by (auto simp: calculateSunsetInfo_def handlePolarRegion_def oracleReturnsNull_def polarFailure_def
        Let_def split: sum.splits option.splits)

lemma calculateSunsetInfo_nonpolar_noValue:
  assumes "oracleReturnsNull h loc d" "\<bar>latitude loc\<bar> \<le> 66.5"
  shows "calculateSunsetInfo h loc d = genericFailure"
  using assms
  by (auto simp: calculateSunsetInfo_def oracleReturnsNull_def genericFailure_def
        split: sum.splits option.splits)

lemma success_iff_oracleValue:
  "success (calculateSunsetInfo h loc d) \<longleftrightarrow> oracleValue h loc d"
  by (auto simp: calculateSunsetInfo_def handlePolarRegion_def oracleValue_def Let_def
        split: sum.splits option.splits)

lemma success_sunsetInfo:
  assumes "success (calculateSunsetInfo h loc d)"
  shows "\<exists>info. sunsetInfo (calculateSunsetInfo h loc d) = Some info \<and> date info = d \<and> location info = loc
      \<and> getSunset h (latitude loc) (longitude loc) d = Inr (Some (sunset info))
      \<and> getSunrise h (latitude loc) (longitude loc) d = Inr (Some (sunrise info))"
  using assms
  by (auto simp: calculateSunsetInfo_def handlePolarRegion_def Let_def
        split: sum.splits option.splits if_splits)

lemma failure_no_sunsetInfo:
  assumes "\<not> success (calculateSunsetInfo h loc d)"
  shows "sunsetInfo (calculateSunsetInfo h loc d) = None \<and> error (calculateSunsetInfo h loc d) \<noteq> None"
  using assms
  by (auto simp: calculateSunsetInfo_def handlePolarRegion_def Let_def
        split: sum.splits option.splits if_splits)

lemma calculateSunsetInfo_throws:
  assumes "oracleThrows h loc d = Some e"
  shows "calculateSunsetInfo h loc d = caughtFailure e"
  using assms
  by (auto simp: calculateSunsetInfo_def handlePolarRegion_def oracleThrows_def caughtFailure_def
        Let_def split: sum.splits option.splits)

text \<open>
  Claim C7 as stated does not hold when no value includes a library call that throws, as
  the specification counts it: at latitude 78.2 on day 173 of the year a library that
  throws, or that returns no sunset and then throws for the sunrise, ends in the handler
  of \<open>calculateSunsetInfo\<close>, and the failure carries no polar flag and no polar type.
\<close>

theorem polar_classification_counterexample:
  "\<bar>latitude longyearbyen\<bar> > 66.5
   \<and> getDayOfYear failingHost (19895 * msPerDay) = 173
   \<and> getSunset failingHost (latitude longyearbyen) (longitude longyearbyen) (19895 * msPerDay) =
       Inl (Error ''library failure'')
   \<and> calculateSunsetInfo failingHost longyearbyen (19895 * msPerDay) =
       \<lparr> success = False, sunsetInfo = None, error = Some ''library failure'',
         isPolarRegion = None, polarType = None \<rparr>
   \<and> getSunset halfFailingHost (latitude longyearbyen) (longitude longyearbyen) (19895 * msPerDay) =
       Inr None
   \<and> getSunrise halfFailingHost (latitude longyearbyen) (longitude longyearbyen) (19895 * msPerDay) =
       Inl NonError
   \<and> calculateSunsetInfo halfFailingHost longyearbyen (19895 * msPerDay) =
       \<lparr> success = False, sunsetInfo = None, error = Some ''Unknown error calculating sunset'',
         isPolarRegion = None, polarType = None \<rparr>
   \<and> calculateSunsetInfo failingHost longyearbyen (19895 * msPerDay) \<noteq> polarFailure midnight_sun"
  by code_simp

text \<open>
  Claim C7, amended. When both library calls return and the sunset or the sunrise is
  missing at a latitude with \<open>|lat| > 66.5\<close>, the result is the polar failure classified by
  hemisphere and day-of-year window: in the window 150 to 200 midnight sun north of the
  equator and polar night south of it, in the window from 340 on or up to 50 polar night
  north and midnight sun south; the classification is the \<open>polarType\<close> of the result and
  the text of its \<open>error\<close>. At \<open>|lat| \<le> 66.5\<close> the result is then the generic failure, with
  \<open>isPolarRegion\<close> false and no polar type. When a library call throws, at any latitude,
  the result is the handler's failure: the message of the thrown error and neither polar
  flag nor polar type.
\<close>

theorem polar_classification_by_window:
  "(oracleReturnsNull h loc d \<longrightarrow>
      (\<bar>latitude loc\<bar> > 66.5 \<and> 150 \<le> getDayOfYear h d \<and> getDayOfYear h d \<le> 200 \<longrightarrow>
         calculateSunsetInfo h loc d =
           polarFailure (if latitude loc > 0 then midnight_sun else polar_night))
      \<and> (\<bar>latitude loc\<bar> > 66.5 \<and> (getDayOfYear h d \<ge> 340 \<or> getDayOfYear h d \<le> 50) \<longrightarrow>
         calculateSunsetInfo h loc d =
           polarFailure (if latitude loc > 0 then polar_night else midnight_sun))
      \<and> (\<bar>latitude loc\<bar> \<le> 66.5 \<longrightarrow> calculateSunsetInfo h loc d = genericFailure))
   \<and> (\<forall>e. oracleThrows h loc d = Some e \<longrightarrow> calculateSunsetInfo h loc d = caughtFailure e)"
proof (intro conjI impI allI)
  assume nv: "oracleReturnsNull h loc d"
  {
    assume a: "\<bar>latitude loc\<bar> > 66.5 \<and> 150 \<le> getDayOfYear h d \<and> getDayOfYear h d \<le> 200"
    with calculateSunsetInfo_polar_noValue [OF nv]
    show "calculateSunsetInfo h loc d =
            polarFailure (if latitude loc > 0 then midnight_sun else polar_night)"
      by (simp add: Let_def)
  }
  {
    assume a: "\<bar>latitude loc\<bar> > 66.5 \<and> (getDayOfYear h d \<ge> 340 \<or> getDayOfYear h d \<le> 50)"
    then have ns: "\<not> (150 \<le> getDayOfYear h d \<and> getDayOfYear h d \<le> 200)" by linarith
    from a have polar: "\<bar>latitude loc\<bar> > 66.5" by simp
    from a ns have
      "(let doy = getDayOfYear h d
        in if latitude loc > 0
           then (if 150 \<le> doy \<and> doy \<le> 200 then midnight_sun
                 else if doy \<ge> 340 \<or> doy \<le> 50 then polar_night else midnight_sun)
           else (if 150 \<le> doy \<and> doy \<le> 200 then polar_night
                 else if doy \<ge> 340 \<or> doy \<le> 50 then midnight_sun else polar_night))
       = (if latitude loc > 0 then polar_night else midnight_sun)"
      by (auto simp: Let_def)
    with calculateSunsetInfo_polar_noValue [OF nv polar]
    show "calculateSunsetInfo h loc d =
            polarFailure (if latitude loc > 0 then polar_night else midnight_sun)"
      by simp
  }
  {
    assume "\<bar>latitude loc\<bar> \<le> 66.5"
    with nv show "calculateSunsetInfo h loc d = genericFailure"
      by (rule calculateSunsetInfo_nonpolar_noValue)
  }
next
  fix e assume "oracleThrows h loc d = Some e"
  then show "calculateSunsetInfo h loc d = caughtFailure e"
    by (rule calculateSunsetInfo_throws)
qed

theorem polar_classification_by_window_witness:
  "oracleReturnsNull silentHost longyearbyen (19895 * msPerDay)
   \<and> getDayOfYear silentHost (19895 * msPerDay) = 173
   \<and> getDayOfYear silentHost (20078 * msPerDay) = 356
   \<and> calculateSunsetInfo silentHost longyearbyen (19895 * msPerDay) = polarFailure midnight_sun
   \<and> calculateSunsetInfo silentHost mcmurdo (19895 * msPerDay) = polarFailure polar_night
   \<and> calculateSunsetInfo silentHost longyearbyen (20078 * msPerDay) = polarFailure polar_night
   \<and> calculateSunsetInfo silentHost mcmurdo (20078 * msPerDay) = polarFailure midnight_sun
   \<and> calculateSunsetInfo silentHost seattle (19895 * msPerDay) = genericFailure
   \<and> oracleThrows failingHost longyearbyen (19895 * msPerDay) = Some (Error ''library failure'')
   \<and> calculateSunsetInfo failingHost longyearbyen (19895 * msPerDay) =
       caughtFailure (Error ''library failure'')
   \<and> oracleThrows halfFailingHost seattle (19895 * msPerDay) = Some NonError
   \<and> calculateSunsetInfo halfFailingHost seattle (19895 * msPerDay) = caughtFailure NonError"
proof -
  have nv: "oracleReturnsNull silentHost loc d" for loc d
    by (simp add: oracleReturnsNull_def silentHost_def)
  have summer: "getDayOfYear silentHost (19895 * msPerDay) = 173"
    and winter: "getDayOfYear silentHost (20078 * msPerDay) = 356"
    by code_simp+
  have north: "latitude longyearbyen > 0" and south: "\<not> latitude mcmurdo > 0"
    by code_simp+
  have ns: "\<bar>latitude longyearbyen\<bar> > 66.5 \<and> 150 \<le> getDayOfYear silentHost (19895 * msPerDay)
              \<and> getDayOfYear silentHost (19895 * msPerDay) \<le> 200"
    and ss: "\<bar>latitude mcmurdo\<bar> > 66.5 \<and> 150 \<le> getDayOfYear silentHost (19895 * msPerDay)
              \<and> getDayOfYear silentHost (19895 * msPerDay) \<le> 200"
    and nw: "\<bar>latitude longyearbyen\<bar> > 66.5 \<and> (getDayOfYear silentHost (20078 * msPerDay) \<ge> 340
              \<or> getDayOfYear silentHost (20078 * msPerDay) \<le> 50)"
    and sw: "\<bar>latitude mcmurdo\<bar> > 66.5 \<and> (getDayOfYear silentHost (20078 * msPerDay) \<ge> 340
              \<or> getDayOfYear silentHost (20078 * msPerDay) \<le> 50)"
    and mid: "\<bar>latitude seattle\<bar> \<le> 66.5"
    by code_simp+
  have t1: "oracleThrows failingHost longyearbyen (19895 * msPerDay) = Some (Error ''library failure'')"
    and t2: "oracleThrows halfFailingHost seattle (19895 * msPerDay) = Some NonError"
    by code_simp+
  note null = polar_classification_by_window [THEN conjunct1, THEN mp, OF nv]
  note thrown = polar_classification_by_window [THEN conjunct2, rule_format]
  have "calculateSunsetInfo silentHost longyearbyen (19895 * msPerDay) = polarFailure midnight_sun"
    using null [THEN conjunct1, THEN mp, OF ns] north
    by (simp only: if_True)
  moreover
  have "calculateSunsetInfo silentHost mcmurdo (19895 * msPerDay) = polarFailure polar_night"
    using null [THEN conjunct1, THEN mp, OF ss] south
    by (simp only: if_False)
  moreover
  have "calculateSunsetInfo silentHost longyearbyen (20078 * msPerDay) = polarFailure polar_night"
    using null [THEN conjunct2, THEN conjunct1, THEN mp, OF nw] north
    by (simp only: if_True)
  moreover
  have "calculateSunsetInfo silentHost mcmurdo (20078 * msPerDay) = polarFailure midnight_sun"
    using null [THEN conjunct2, THEN conjunct1, THEN mp, OF sw] south
    by (simp only: if_False)
  moreover
  have "calculateSunsetInfo silentHost seattle (19895 * msPerDay) = genericFailure"
    using null [THEN conjunct2, THEN conjunct2, THEN mp, OF mid] .
  moreover
  have "calculateSunsetInfo failingHost longyearbyen (19895 * msPerDay) =
       caughtFailure (Error ''library failure'')"
    using thrown [OF t1] .
  moreover
  have "calculateSunsetInfo halfFailingHost seattle (19895 * msPerDay) = caughtFailure NonError"
    using thrown [OF t2] .
  ultimately show ?thesis
    using nv summer winter t1 t2 by blast
qed

text \<open>
  Claim C9 as stated does not hold when no value includes a library call that throws: at
  latitude -77.85 on day 250 of the year, and at latitude 78.2 on day 100, a throwing
  library gives the handler's failure, which is not reported as a polar condition.
\<close>

theorem polar_default_counterexample:
  "\<bar>latitude mcmurdo\<bar> > 66.5
   \<and> getDayOfYear halfFailingHost (19972 * msPerDay) = 250
   \<and> getSunset halfFailingHost (latitude mcmurdo) (longitude mcmurdo) (19972 * msPerDay) = Inr None
   \<and> getSunrise halfFailingHost (latitude mcmurdo) (longitude mcmurdo) (19972 * msPerDay) =
       Inl NonError
   \<and> calculateSunsetInfo halfFailingHost mcmurdo (19972 * msPerDay) =
       \<lparr> success = False, sunsetInfo = None, error = Some ''Unknown error calculating sunset'',
         isPolarRegion = None, polarType = None \<rparr>
   \<and> getDayOfYear failingHost (19822 * msPerDay) = 100
   \<and> calculateSunsetInfo failingHost longyearbyen (19822 * msPerDay) =
       \<lparr> success = False, sunsetInfo = None, error = Some ''library failure'',
         isPolarRegion = None, polarType = None \<rparr>"
  by code_simp

text \<open>
  Claim C9, amended. At \<open>|lat| > 66.5\<close> on a day outside both windows (day of year 51 to 149
  or 201 to 339), when both library calls return and the sunset or the sunrise is missing,
  the result is still a polar failure: midnight sun in the northern hemisphere, polar night
  in the southern. When a library call throws there, the result is the handler's failure,
  with the message of the thrown error and neither polar flag nor polar type.
\<close>

theorem polar_default_outside_windows:
  "(oracleReturnsNull h loc d \<and> \<bar>latitude loc\<bar> > 66.5
      \<and> ((51 \<le> getDayOfYear h d \<and> getDayOfYear h d \<le> 149)
           \<or> (201 \<le> getDayOfYear h d \<and> getDayOfYear h d \<le> 339)) \<longrightarrow>
      calculateSunsetInfo h loc d =
        polarFailure (if latitude loc > 0 then midnight_sun else polar_night))
   \<and> (\<forall>e. oracleThrows h loc d = Some e \<and> \<bar>latitude loc\<bar> > 66.5
          \<and> ((51 \<le> getDayOfYear h d \<and> getDayOfYear h d \<le> 149)
               \<or> (201 \<le> getDayOfYear h d \<and> getDayOfYear h d \<le> 339)) \<longrightarrow>
          calculateSunsetInfo h loc d = caughtFailure e)"
proof (intro conjI impI allI)
  assume a: "oracleReturnsNull h loc d \<and> \<bar>latitude loc\<bar> > 66.5
      \<and> ((51 \<le> getDayOfYear h d \<and> getDayOfYear h d \<le> 149)
           \<or> (201 \<le> getDayOfYear h d \<and> getDayOfYear h d \<le> 339))"
  then have nv: "oracleReturnsNull h loc d" and polar: "\<bar>latitude loc\<bar> > 66.5" by simp_all
  from a have
    "(let doy = getDayOfYear h d
      in if latitude loc > 0
         then (if 150 \<le> doy \<and> doy \<le> 200 then midnight_sun
               else if doy \<ge> 340 \<or> doy \<le> 50 then polar_night else midnight_sun)
         else (if 150 \<le> doy \<and> doy \<le> 200 then polar_night
               else if doy \<ge> 340 \<or> doy \<le> 50 then midnight_sun else polar_night))
     = (if latitude loc > 0 then midnight_sun else polar_night)"
    by (auto simp: Let_def)
  with calculateSunsetInfo_polar_noValue [OF nv polar]
  show "calculateSunsetInfo h loc d =
          polarFailure (if latitude loc > 0 then midnight_sun else polar_night)"
    by simp
next
  fix e
  assume "oracleThrows h loc d = Some e \<and> \<bar>latitude loc\<bar> > 66.5
          \<and> ((51 \<le> getDayOfYear h d \<and> getDayOfYear h d \<le> 149)
               \<or> (201 \<le> getDayOfYear h d \<and> getDayOfYear h d \<le> 339))"
  then have "oracleThrows h loc d = Some e" by simp
  then show "calculateSunsetInfo h loc d = caughtFailure e"
    by (rule calculateSunsetInfo_throws)
qed

theorem polar_default_outside_windows_witness:
  "oracleReturnsNull silentHost longyearbyen (19822 * msPerDay)
   \<and> \<bar>latitude longyearbyen\<bar> > 66.5 \<and> \<bar>latitude mcmurdo\<bar> > 66.5
   \<and> getDayOfYear silentHost (19822 * msPerDay) = 100
   \<and> getDayOfYear silentHost (19972 * msPerDay) = 250
   \<and> calculateSunsetInfo silentHost longyearbyen (19822 * msPerDay) = polarFailure midnight_sun
   \<and> calculateSunsetInfo silentHost mcmurdo (19972 * msPerDay) = polarFailure polar_night
   \<and> oracleThrows halfFailingHost mcmurdo (19972 * msPerDay) = Some NonError
   \<and> calculateSunsetInfo halfFailingHost mcmurdo (19972 * msPerDay) = caughtFailure NonError"
proof -
  have north: "latitude longyearbyen > 0" and south: "\<not> latitude mcmurdo > 0"
    and n: "\<bar>latitude longyearbyen\<bar> > 66.5" and s: "\<bar>latitude mcmurdo\<bar> > 66.5"
    by code_simp+
  have spring: "getDayOfYear silentHost (19822 * msPerDay) = 100"
    and autumn: "getDayOfYear silentHost (19972 * msPerDay) = 250"
    by code_simp+
  have a: "oracleReturnsNull silentHost longyearbyen (19822 * msPerDay)
         \<and> \<bar>latitude longyearbyen\<bar> > 66.5
         \<and> ((51 \<le> getDayOfYear silentHost (19822 * msPerDay)
              \<and> getDayOfYear silentHost (19822 * msPerDay) \<le> 149)
           \<or> (201 \<le> getDayOfYear silentHost (19822 * msPerDay)
              \<and> getDayOfYear silentHost (19822 * msPerDay) \<le> 339))"
    and b: "oracleReturnsNull silentHost mcmurdo (19972 * msPerDay)
         \<and> \<bar>latitude mcmurdo\<bar> > 66.5
         \<and> ((51 \<le> getDayOfYear silentHost (19972 * msPerDay)
              \<and> getDayOfYear silentHost (19972 * msPerDay) \<le> 149)
           \<or> (201 \<le> getDayOfYear silentHost (19972 * msPerDay)
              \<and> getDayOfYear silentHost (19972 * msPerDay) \<le> 339))"
    and c: "oracleThrows halfFailingHost mcmurdo (19972 * msPerDay) = Some NonError
         \<and> \<bar>latitude mcmurdo\<bar> > 66.5
         \<and> ((51 \<le> getDayOfYear halfFailingHost (19972 * msPerDay)
              \<and> getDayOfYear halfFailingHost (19972 * msPerDay) \<le> 149)
           \<or> (201 \<le> getDayOfYear halfFailingHost (19972 * msPerDay)
              \<and> getDayOfYear halfFailingHost (19972 * msPerDay) \<le> 339))"
    by code_simp+
  have "calculateSunsetInfo silentHost longyearbyen (19822 * msPerDay) = polarFailure midnight_sun"
    using polar_default_outside_windows [THEN conjunct1, THEN mp, OF a] north
    by (simp only: if_True)
  moreover
  have "calculateSunsetInfo silentHost mcmurdo (19972 * msPerDay) = polarFailure polar_night"
    using polar_default_outside_windows [THEN conjunct1, THEN mp, OF b] south
    by (simp only: if_False)
  moreover
  have "calculateSunsetInfo halfFailingHost mcmurdo (19972 * msPerDay) = caughtFailure NonError"
    using polar_default_outside_windows [THEN conjunct2, rule_format, OF c] .
  ultimately show ?thesis
    using a c n s spring autumn by blast
qed

text \<open>
  Claim C2 is not met by the code: \<open>calculateSunsetInfo\<close> has no check of the coordinate
  ranges. At latitude 999, longitude 999, which \<open>isValidLocation\<close> refuses, it takes the
  polar path and asks the library: it succeeds with sunset info when the library answers,
  returns the polar failure when the library has no value, and the library's own message
  when the library throws. None of these is a failure for invalid coordinates.
\<close>

theorem calculateSunsetInfo_accepts_invalid_coordinates:
  "latitude invalidLocation = 999 \<and> longitude invalidLocation = 999
   \<and> \<not> isValidLocation (latitude invalidLocation) (longitude invalidLocation)
   \<and> calculateSunsetInfo (driftHost 1180 10) invalidLocation 0 =
       \<lparr> success = True,
         sunsetInfo = Some \<lparr> sunset = 70800000, sunrise = 21600000, location = invalidLocation,
                             date = 0, timezone = ''UTC'', hasSunset = True \<rparr>,
         error = None, isPolarRegion = Some True, polarType = None \<rparr>
   \<and> calculateSunsetInfo silentHost invalidLocation 0 = polarFailure polar_night
   \<and> calculateSunsetInfo throwingHost invalidLocation 0 =
       caughtFailure (Error ''Invalid coordinates'')"
  by code_simp

section \<open>The progression\<close>

lemma progression_from_eq:
  "calculateSunsetProgression_from h loc startDate n i results =
     results @ map (\<lambda>k. calculateSunsetInfo h loc (addDays startDate k)) [i..n - 1]"
proof (induction h loc startDate n i results rule: calculateSunsetProgression_from.induct)
  case (1 h loc startDate n i results)
  show ?case
  proof (cases "i < n")
    case True
    then have "[i..n - 1] = i # [i + 1..n - 1]"
      by (simp add: upto_rec1)
    with True "1.IH" show ?thesis
      by (subst calculateSunsetProgression_from.simps) simp
  next
    case False
    then show ?thesis
      by (subst calculateSunsetProgression_from.simps) simp
  qed
qed

lemma progression_eq_map:
  "calculateSunsetProgression h loc startDate n =
     map (\<lambda>k. calculateSunsetInfo h loc (addDays startDate k)) [0..n - 1]"
  by (simp add: calculateSunsetProgression_def progression_from_eq)

text \<open>
  Claim C8. For every location, start date and day count \<open>n\<close>, \<open>calculateSunsetProgression\<close>
  returns exactly \<open>n\<close> results (none when \<open>n \<le> 0\<close>); entry \<open>i\<close>, counted from 0, is the
  single-day query for the start date plus \<open>i\<close> calendar days, and depends on nothing else;
  the sunset info of an entry carries that date.
\<close>

theorem progression_length_and_entries:
  "length (calculateSunsetProgression h loc startDate n) = nat n
   \<and> (\<forall>i. 0 \<le> i \<and> i < n \<longrightarrow>
         calculateSunsetProgression h loc startDate n ! nat i =
           calculateSunsetInfo h loc (addDays startDate i)
         \<and> (\<forall>info. sunsetInfo (calculateSunsetProgression h loc startDate n ! nat i) = Some info
               \<longrightarrow> date info = addDays startDate i))
   \<and> (n \<le> 0 \<longrightarrow> calculateSunsetProgression h loc startDate n = [])"
proof (intro conjI allI impI)
  show "length (calculateSunsetProgression h loc startDate n) = nat n"
    by (simp add: progression_eq_map)
next
  fix i assume i: "0 \<le> i \<and> i < n"
  then show e: "calculateSunsetProgression h loc startDate n ! nat i =
           calculateSunsetInfo h loc (addDays startDate i)"
    by (simp add: progression_eq_map)
  fix info
  assume "sunsetInfo (calculateSunsetProgression h loc startDate n ! nat i) = Some info"
  with e have s: "sunsetInfo (calculateSunsetInfo h loc (addDays startDate i)) = Some info"
    by simp
  then have "success (calculateSunsetInfo h loc (addDays startDate i))"
    using failure_no_sunsetInfo by fastforce
  from success_sunsetInfo [OF this] s show "date info = addDays startDate i"
    by auto
next
  assume "n \<le> 0"
  then show "calculateSunsetProgression h loc startDate n = []"
    by (simp add: progression_eq_map)
qed

theorem progression_length_and_entries_witness:
  "length (calculateSunsetProgression (driftHost 1180 10) seattle 0 3) = 3
   \<and> calculateSunsetProgression (driftHost 1180 10) seattle 0 3 ! 2 =
       calculateSunsetInfo (driftHost 1180 10) seattle (addDays 0 2)
   \<and> sunsetInfo (calculateSunsetProgression (driftHost 1180 10) seattle 0 3 ! 2) =
       Some \<lparr> sunset = 244800000, sunrise = 194400000, location = seattle,
              date = 172800000, timezone = ''UTC'', hasSunset = True \<rparr>
   \<and> addDays 0 2 = 172800000
   \<and> calculateSunsetProgression (driftHost 1180 10) seattle 0 0 = []"
proof -
  have i: "(0::int) \<le> 2 \<and> (2::int) < 3" by simp
  have z: "(0::int) \<le> 0" by simp
  have info: "sunsetInfo (calculateSunsetInfo (driftHost 1180 10) seattle (addDays 0 2)) =
       Some \<lparr> sunset = 244800000, sunrise = 194400000, location = seattle,
              date = 172800000, timezone = ''UTC'', hasSunset = True \<rparr>"
    by code_simp
  have d: "addDays 0 2 = 172800000" by code_simp
  note w = progression_length_and_entries [of "driftHost 1180 10" seattle 0 3]
  note e = w [THEN conjunct2, THEN conjunct1, rule_format, OF i, THEN conjunct1]
  from w have "length (calculateSunsetProgression (driftHost 1180 10) seattle 0 3) = 3"
    by simp
  moreover from e have "calculateSunsetProgression (driftHost 1180 10) seattle 0 3 ! 2 =
       calculateSunsetInfo (driftHost 1180 10) seattle (addDays 0 2)"
    by simp
  moreover have "calculateSunsetProgression (driftHost 1180 10) seattle 0 0 = []"
    using progression_length_and_entries [of "driftHost 1180 10" seattle 0 0,
            THEN conjunct2, THEN conjunct2, THEN mp, OF z] .
  ultimately show ?thesis
    using info d by simp
qed

section \<open>The milestone search\<close>

lemma msPerDay_pos: "0 < msPerDay"
  by (simp add: msPerDay_def)

lemma qualifies_iff:
  "qualifies h loc t d \<longleftrightarrow>
     success (calculateSunsetInfo h loc d) \<and> sunsetInfo (calculateSunsetInfo h loc d) \<noteq> None
     \<and> t \<le> timeOfDay h (sunset (the (sunsetInfo (calculateSunsetInfo h loc d))))"
  by (auto simp: qualifies_def sunsetTimeOfDay_def Let_def split: option.splits)

lemma sunsetTimeOfDay_None_iff:
  "sunsetTimeOfDay h loc d = None \<longleftrightarrow> \<not> success (calculateSunsetInfo h loc d)"
  using success_sunsetInfo [of h loc d]
  by (auto simp: sunsetTimeOfDay_def Let_def)

lemma find_from_unfold:
  "findSunsetAfterTime_from h loc t s n i =
     (if i < n
      then (if qualifies h loc t (addDays s i)
            then Some \<lparr> match_date = addDays s i,
                        sunsetTime = sunset (the (sunsetInfo (calculateSunsetInfo h loc (addDays s i)))) \<rparr>
            else findSunsetAfterTime_from h loc t s n (i + 1))
      else None)"
  by (subst findSunsetAfterTime_from.simps)
     (auto simp: qualifies_iff timeOfDay_def Let_def)

lemma find_from_Some:
  assumes "findSunsetAfterTime_from h loc t s n i = Some r"
  shows "\<exists>k. i \<le> k \<and> k < n \<and> qualifies h loc t (addDays s k)
           \<and> r = \<lparr> match_date = addDays s k,
                    sunsetTime = sunset (the (sunsetInfo (calculateSunsetInfo h loc (addDays s k)))) \<rparr>
           \<and> (\<forall>j. i \<le> j \<and> j < k \<longrightarrow> \<not> qualifies h loc t (addDays s j))"
  using assms
proof (induction "nat (n - i)" arbitrary: i)
  case 0
  then have "\<not> i < n" by simp
  with "0.prems" show ?case
    by (subst (asm) find_from_unfold) simp
next
  case (Suc m)
  then have lt: "i < n" by linarith
  show ?case
  proof (cases "qualifies h loc t (addDays s i)")
    case True
    with lt Suc.prems have "r = \<lparr> match_date = addDays s i,
        sunsetTime = sunset (the (sunsetInfo (calculateSunsetInfo h loc (addDays s i)))) \<rparr>"
      by (subst (asm) find_from_unfold) simp
    with True lt show ?thesis
      by (intro exI [of _ i]) auto
  next
    case False
    with lt Suc.prems have "findSunsetAfterTime_from h loc t s n (i + 1) = Some r"
      by (subst (asm) find_from_unfold) simp
    moreover from Suc.hyps(2) have "m = nat (n - (i + 1))" by linarith
    ultimately obtain k where k: "i + 1 \<le> k" "k < n" "qualifies h loc t (addDays s k)"
      "r = \<lparr> match_date = addDays s k,
             sunsetTime = sunset (the (sunsetInfo (calculateSunsetInfo h loc (addDays s k)))) \<rparr>"
      "\<forall>j. i + 1 \<le> j \<and> j < k \<longrightarrow> \<not> qualifies h loc t (addDays s j)"
      using Suc.hyps(1) by blast
    have "\<forall>j. i \<le> j \<and> j < k \<longrightarrow> \<not> qualifies h loc t (addDays s j)"
    proof (intro allI impI)
      fix j assume j: "i \<le> j \<and> j < k"
      show "\<not> qualifies h loc t (addDays s j)"
      proof (cases "j = i")
        case True with False show ?thesis by simp
      next
        case False with j k(5) show ?thesis by simp
      qed
    qed
    with k show ?thesis
      by (intro exI [of _ k]) simp
  qed
qed

lemma find_from_first:
  assumes "i \<le> k" "k < n" "qualifies h loc t (addDays s k)"
    and "\<forall>j. i \<le> j \<and> j < k \<longrightarrow> \<not> qualifies h loc t (addDays s j)"
  shows "findSunsetAfterTime_from h loc t s n i =
           Some \<lparr> match_date = addDays s k,
                  sunsetTime = sunset (the (sunsetInfo (calculateSunsetInfo h loc (addDays s k)))) \<rparr>"
  using assms
proof (induction "nat (k - i)" arbitrary: i)
  case 0
  then have "i = k" by simp
  with 0 show ?case
    by (subst find_from_unfold) simp
next
  case (Suc m)
  then have "i < k" by linarith
  with Suc.prems have nq: "\<not> qualifies h loc t (addDays s i)" and lt: "i < n" by simp_all
  from Suc.hyps(2) have "m = nat (k - (i + 1))" by linarith
  moreover from \<open>i < k\<close> have "i + 1 \<le> k" by simp
  moreover from Suc.prems(4) have "\<forall>j. i + 1 \<le> j \<and> j < k \<longrightarrow> \<not> qualifies h loc t (addDays s j)"
    by simp
  ultimately have "findSunsetAfterTime_from h loc t s n (i + 1) =
           Some \<lparr> match_date = addDays s k,
                  sunsetTime = sunset (the (sunsetInfo (calculateSunsetInfo h loc (addDays s k)))) \<rparr>"
    using Suc.hyps(1) Suc.prems(2,3) by blast
  with nq lt show ?case
    by (subst find_from_unfold) simp
qed

lemma find_from_None_iff:
  "findSunsetAfterTime_from h loc t s n i = None \<longleftrightarrow>
     (\<forall>j. i \<le> j \<and> j < n \<longrightarrow> \<not> qualifies h loc t (addDays s j))"
proof
  assume none: "findSunsetAfterTime_from h loc t s n i = None"
  show "\<forall>j. i \<le> j \<and> j < n \<longrightarrow> \<not> qualifies h loc t (addDays s j)"
  proof (rule ccontr)
    assume "\<not> (\<forall>j. i \<le> j \<and> j < n \<longrightarrow> \<not> qualifies h loc t (addDays s j))"
    then obtain j where j: "i \<le> j" "j < n" "qualifies h loc t (addDays s j)" by blast
    define P where "P = (\<lambda>m. qualifies h loc t (addDays s (i + int m)))"
    from j have "P (nat (j - i))" by (simp add: P_def)
    then have first: "P (LEAST m. P m)" by (rule LeastI)
    have least: "\<not> P m" if "m < (LEAST m. P m)" for m
      using that by (rule not_less_Least)
    define k where "k = i + int (LEAST m. P m)"
    from \<open>P (nat (j - i))\<close> have "(LEAST m. P m) \<le> nat (j - i)" by (rule Least_le)
    with j have kn: "i \<le> k" "k < n" by (simp_all add: k_def)
    from first have qk: "qualifies h loc t (addDays s k)" by (simp add: P_def k_def)
    have "\<forall>j'. i \<le> j' \<and> j' < k \<longrightarrow> \<not> qualifies h loc t (addDays s j')"
    proof (intro allI impI)
      fix j' assume a: "i \<le> j' \<and> j' < k"
      then have "nat (j' - i) < (LEAST m. P m)" unfolding k_def by linarith
      from least [OF this] a show "\<not> qualifies h loc t (addDays s j')" by (simp add: P_def)
    qed
    from find_from_first [OF kn qk this] none show False by simp
  qed
next
  assume all: "\<forall>j. i \<le> j \<and> j < n \<longrightarrow> \<not> qualifies h loc t (addDays s j)"
  show "findSunsetAfterTime_from h loc t s n i = None"
  proof (rule ccontr)
    assume "findSunsetAfterTime_from h loc t s n i \<noteq> None"
    then obtain r where "findSunsetAfterTime_from h loc t s n i = Some r" by blast
    from find_from_Some [OF this] all show False by blast
  qed
qed

text \<open>
  Claim C1. If \<open>findSunsetAfterTime\<close> returns a match, then the match date is the start
  date plus some \<open>k\<close> days with \<open>0 \<le> k < maxDays\<close>, so it is at or after the start date;
  the single-day query of the match date succeeds with the returned sunset, whose time of
  day (hours * 60 + minutes) is at or after the target's; and on every earlier date of the
  window, the start date included, the sunset time of day is below the target. A date
  whose query fails has no sunset time of day and is passed over.
\<close>

theorem findSunsetAfterTime_first_qualifying:
  assumes "findSunsetAfterTime h loc targetTime startDate maxDays = Some r"
  shows "\<exists>k. 0 \<le> k \<and> k < maxDays
           \<and> match_date r = addDays startDate k
           \<and> match_date r \<ge> startDate
           \<and> (\<exists>info. success (calculateSunsetInfo h loc (match_date r))
                  \<and> sunsetInfo (calculateSunsetInfo h loc (match_date r)) = Some info
                  \<and> sunset info = sunsetTime r)
           \<and> sunsetTimeOfDay h loc (match_date r) = Some (timeOfDay h (sunsetTime r))
           \<and> timeOfDay h (sunsetTime r) \<ge> timeOfDay h targetTime
           \<and> (\<forall>j. 0 \<le> j \<and> j < k \<longrightarrow>
                 (case sunsetTimeOfDay h loc (addDays startDate j) of
                    None \<Rightarrow> True
                  | Some m \<Rightarrow> m < timeOfDay h targetTime))"
proof -
  let ?t = "timeOfDay h targetTime"
  from assms have "findSunsetAfterTime_from h loc ?t startDate maxDays 0 = Some r"
    by (simp add: findSunsetAfterTime_def timeOfDay_def Let_def)
  from find_from_Some [OF this] obtain k where k: "0 \<le> k" "k < maxDays"
    and q: "qualifies h loc ?t (addDays startDate k)"
    and r: "r = \<lparr> match_date = addDays startDate k,
                   sunsetTime = sunset (the (sunsetInfo (calculateSunsetInfo h loc (addDays startDate k)))) \<rparr>"
    and first: "\<forall>j. 0 \<le> j \<and> j < k \<longrightarrow> \<not> qualifies h loc ?t (addDays startDate j)"
    by blast
  from r have md: "match_date r = addDays startDate k" by simp
  from k(1) msPerDay_pos have ge: "addDays startDate k \<ge> startDate"
    by (simp add: addDays_def)
  from q obtain info where info: "success (calculateSunsetInfo h loc (addDays startDate k))"
      "sunsetInfo (calculateSunsetInfo h loc (addDays startDate k)) = Some info"
      "?t \<le> timeOfDay h (sunset info)"
    by (auto simp: qualifies_iff)
  with r have st: "sunsetTime r = sunset info" by simp
  from info have tod: "sunsetTimeOfDay h loc (addDays startDate k) = Some (timeOfDay h (sunset info))"
    by (simp add: sunsetTimeOfDay_def)
  have before: "\<forall>j. 0 \<le> j \<and> j < k \<longrightarrow>
                 (case sunsetTimeOfDay h loc (addDays startDate j) of
                    None \<Rightarrow> True
                  | Some m \<Rightarrow> m < ?t)"
    using first by (auto simp: qualifies_def split: option.splits)
  show ?thesis
    using k md ge info st tod before by (intro exI [of _ k]) simp
qed

theorem findSunsetAfterTime_first_qualifying_witness:
  "findSunsetAfterTime (driftHost 1180 10) seattle (20 * msPerHour) 0 365 =
     Some \<lparr> match_date = 172800000, sunsetTime = 244800000 \<rparr>
   \<and> (\<exists>k. 0 \<le> k \<and> k < 365
           \<and> (172800000::int) = addDays 0 k
           \<and> (172800000::int) \<ge> 0
           \<and> (\<exists>info. success (calculateSunsetInfo (driftHost 1180 10) seattle 172800000)
                  \<and> sunsetInfo (calculateSunsetInfo (driftHost 1180 10) seattle 172800000) = Some info
                  \<and> sunset info = 244800000)
           \<and> sunsetTimeOfDay (driftHost 1180 10) seattle 172800000 =
                Some (timeOfDay (driftHost 1180 10) 244800000)
           \<and> timeOfDay (driftHost 1180 10) 244800000 \<ge> timeOfDay (driftHost 1180 10) (20 * msPerHour)
           \<and> (\<forall>j. 0 \<le> j \<and> j < k \<longrightarrow>
                 (case sunsetTimeOfDay (driftHost 1180 10) seattle (addDays 0 j) of
                    None \<Rightarrow> True
                  | Some m \<Rightarrow> m < timeOfDay (driftHost 1180 10) (20 * msPerHour))))
   \<and> sunsetTimeOfDay (driftHost 1180 10) seattle (addDays 0 0) = Some 1180
   \<and> sunsetTimeOfDay (driftHost 1180 10) seattle (addDays 0 1) = Some 1190
   \<and> sunsetTimeOfDay (driftHost 1180 10) seattle (addDays 0 2) = Some 1200
   \<and> timeOfDay (driftHost 1180 10) (20 * msPerHour) = 1200"
proof -
  have found: "findSunsetAfterTime (driftHost 1180 10) seattle (20 * msPerHour) 0 365 =
     Some \<lparr> match_date = 172800000, sunsetTime = 244800000 \<rparr>"
    by code_simp
  have days: "sunsetTimeOfDay (driftHost 1180 10) seattle (addDays 0 0) = Some 1180"
    "sunsetTimeOfDay (driftHost 1180 10) seattle (addDays 0 1) = Some 1190"
    "sunsetTimeOfDay (driftHost 1180 10) seattle (addDays 0 2) = Some 1200"
    "timeOfDay (driftHost 1180 10) (20 * msPerHour) = 1200"
    by code_simp+
  from findSunsetAfterTime_first_qualifying [OF found] found days
  show ?thesis by simp
qed

text \<open>
  Claim C6. In the scan of \<open>findSunsetAfterTime\<close> a day whose single-day query fails is
  skipped: the scan from that day equals the scan from the next day. The search returns
  nothing exactly when no day of the window qualifies, and when some day qualifies it
  returns the first such day, whatever failed before it: a day's failure is never the
  result of the search.
\<close>

theorem findSunsetAfterTime_skips_failing_days:
  "(i < maxDays \<and> \<not> success (calculateSunsetInfo h loc (addDays startDate i)) \<longrightarrow>
      findSunsetAfterTime_from h loc t startDate maxDays i =
        findSunsetAfterTime_from h loc t startDate maxDays (i + 1))
   \<and> (findSunsetAfterTime h loc targetTime startDate maxDays = None \<longleftrightarrow>
        (\<forall>j. 0 \<le> j \<and> j < maxDays \<longrightarrow>
           \<not> qualifies h loc (timeOfDay h targetTime) (addDays startDate j)))
   \<and> (\<forall>k. 0 \<le> k \<and> k < maxDays
          \<and> qualifies h loc (timeOfDay h targetTime) (addDays startDate k)
          \<and> (\<forall>j. 0 \<le> j \<and> j < k \<longrightarrow>
                \<not> qualifies h loc (timeOfDay h targetTime) (addDays startDate j)) \<longrightarrow>
        (\<exists>r. findSunsetAfterTime h loc targetTime startDate maxDays = Some r
             \<and> match_date r = addDays startDate k))"
proof (intro conjI allI impI)
  assume a: "i < maxDays \<and> \<not> success (calculateSunsetInfo h loc (addDays startDate i))"
  then have "\<not> qualifies h loc t (addDays startDate i)"
    by (simp add: qualifies_iff)
  with a show "findSunsetAfterTime_from h loc t startDate maxDays i =
        findSunsetAfterTime_from h loc t startDate maxDays (i + 1)"
    by (subst find_from_unfold) simp
next
  show "findSunsetAfterTime h loc targetTime startDate maxDays = None \<longleftrightarrow>
        (\<forall>j. 0 \<le> j \<and> j < maxDays \<longrightarrow>
           \<not> qualifies h loc (timeOfDay h targetTime) (addDays startDate j))"
    using find_from_None_iff [of h loc "timeOfDay h targetTime" startDate maxDays 0]
    by (simp add: findSunsetAfterTime_def timeOfDay_def Let_def)
next
  fix k
  assume a: "0 \<le> k \<and> k < maxDays
          \<and> qualifies h loc (timeOfDay h targetTime) (addDays startDate k)
          \<and> (\<forall>j. 0 \<le> j \<and> j < k \<longrightarrow>
                \<not> qualifies h loc (timeOfDay h targetTime) (addDays startDate j))"
  then have "findSunsetAfterTime_from h loc (timeOfDay h targetTime) startDate maxDays 0 =
           Some \<lparr> match_date = addDays startDate k,
                  sunsetTime = sunset (the (sunsetInfo (calculateSunsetInfo h loc (addDays startDate k)))) \<rparr>"
    by (intro find_from_first) simp_all
  then show "\<exists>r. findSunsetAfterTime h loc targetTime startDate maxDays = Some r
             \<and> match_date r = addDays startDate k"
    by (simp add: findSunsetAfterTime_def timeOfDay_def Let_def)
qed

theorem findSunsetAfterTime_skips_failing_days_witness:
  "\<not> success (calculateSunsetInfo lateHost seattle (addDays 0 0))
   \<and> findSunsetAfterTime_from lateHost seattle 1200 0 365 0 =
       findSunsetAfterTime_from lateHost seattle 1200 0 365 (0 + 1)
   \<and> findSunsetAfterTime lateHost seattle (20 * msPerHour) 0 365 =
       Some \<lparr> match_date = 172800000, sunsetTime = 244800000 \<rparr>
   \<and> (\<exists>r. findSunsetAfterTime lateHost seattle (20 * msPerHour) 0 365 = Some r
          \<and> match_date r = addDays 0 2)
   \<and> findSunsetAfterTime silentHost seattle (20 * msPerHour) 0 365 = None
   \<and> \<not> qualifies silentHost seattle (timeOfDay silentHost (20 * msPerHour)) (addDays 0 0)
   \<and> \<not> qualifies silentHost seattle (timeOfDay silentHost (20 * msPerHour)) (addDays 0 364)"
proof -
  have fail0: "(0::int) < 365 \<and> \<not> success (calculateSunsetInfo lateHost seattle (addDays 0 0))"
    by code_simp
  have found: "findSunsetAfterTime lateHost seattle (20 * msPerHour) 0 365 =
       Some \<lparr> match_date = 172800000, sunsetTime = 244800000 \<rparr>"
    by code_simp
  have none: "findSunsetAfterTime silentHost seattle (20 * msPerHour) 0 365 = None"
    by code_simp
  have q0: "\<not> qualifies lateHost seattle (timeOfDay lateHost (20 * msPerHour)) (addDays 0 0)"
    and q1: "\<not> qualifies lateHost seattle (timeOfDay lateHost (20 * msPerHour)) (addDays 0 1)"
    and q2: "qualifies lateHost seattle (timeOfDay lateHost (20 * msPerHour)) (addDays 0 2)"
    by code_simp+
  have before: "\<forall>j. 0 \<le> j \<and> j < 2 \<longrightarrow>
      \<not> qualifies lateHost seattle (timeOfDay lateHost (20 * msPerHour)) (addDays 0 j)"
  proof (intro allI impI)
    fix j :: int assume "0 \<le> j \<and> j < 2"
    then have "j = 0 \<or> j = 1" by linarith
    with q0 q1 show "\<not> qualifies lateHost seattle (timeOfDay lateHost (20 * msPerHour)) (addDays 0 j)"
      by auto
  qed
  have k: "(0::int) \<le> 2 \<and> (2::int) < 365
      \<and> qualifies lateHost seattle (timeOfDay lateHost (20 * msPerHour)) (addDays 0 2)
      \<and> (\<forall>j. 0 \<le> j \<and> j < 2 \<longrightarrow>
            \<not> qualifies lateHost seattle (timeOfDay lateHost (20 * msPerHour)) (addDays 0 j))"
    using q2 before by simp
  note late = findSunsetAfterTime_skips_failing_days
                [of 0 365 lateHost seattle 0 1200 "20 * msPerHour"]
  note silent = findSunsetAfterTime_skips_failing_days
                [of 0 365 silentHost seattle 0 1200 "20 * msPerHour"]
  have "findSunsetAfterTime_from lateHost seattle 1200 0 365 0 =
       findSunsetAfterTime_from lateHost seattle 1200 0 365 (0 + 1)"
    using late [THEN conjunct1, THEN mp, OF fail0] .
  moreover
  have "\<exists>r. findSunsetAfterTime lateHost seattle (20 * msPerHour) 0 365 = Some r
          \<and> match_date r = addDays 0 2"
    using late [THEN conjunct2, THEN conjunct2, rule_format, OF k] .
  moreover
  have all: "\<forall>j. 0 \<le> j \<and> j < 365 \<longrightarrow>
         \<not> qualifies silentHost seattle (timeOfDay silentHost (20 * msPerHour)) (addDays 0 j)"
    using silent [THEN conjunct2, THEN conjunct1] none by simp
  have "\<not> qualifies silentHost seattle (timeOfDay silentHost (20 * msPerHour)) (addDays 0 0)"
    and "\<not> qualifies silentHost seattle (timeOfDay silentHost (20 * msPerHour)) (addDays 0 364)"
    using all by simp_all
  ultimately show ?thesis
    using fail0 found none by simp
qed

section \<open>The next milestone\<close>

lemma div_hour: "(L::int) div 3600000 = (L div 60000) div 60"
proof -
  have "L div (60000 * 60) = (L div 60000) div 60" by (rule zdiv_zmult2_eq) simp
  then show ?thesis by simp
qed

lemma div_half_hour: "(L::int) div 1800000 = (L div 60000) div 30"
proof -
  have "L div (60000 * 30) = (L div 60000) div 30" by (rule zdiv_zmult2_eq) simp
  then show ?thesis by simp
qed

lemma div_day: "(L::int) div 86400000 = ((L div 60000) div 60) div 24"
proof -
  have "L div (3600000 * 24) = (L div 3600000) div 24" by (rule zdiv_zmult2_eq) simp
  then show ?thesis by (simp add: div_hour)
qed

lemma half_hour_low:
  assumes "(M::int) mod 60 < 30"
  shows "(M div 30 + 1) * 30 = (M div 60) * 60 + 30"
proof -
  have "M = 30 * (2 * (M div 60)) + M mod 60"
    using mult_div_mod_eq [of 60 M] by linarith
  moreover have "0 \<le> M mod 60" by simp
  ultimately have "M div 30 = 2 * (M div 60)"
    using assms by (rule int_div_pos_eq)
  then show ?thesis by simp
qed
lemma half_hour_high:
  assumes "\<not> (M::int) mod 60 < 30"
  shows "(M div 30 + 1) * 30 = (M div 60 + 1) * 60"
proof -
  have "M = 30 * (2 * (M div 60) + 1) + (M mod 60 - 30)"
    using mult_div_mod_eq [of 60 M] by (simp add: algebra_simps)
  moreover from assms have "0 \<le> M mod 60 - 30" by simp
  moreover have "M mod 60 - 30 < 30"
    using pos_mod_bound [of 60 M] by linarith
  ultimately have "M div 30 = 2 * (M div 60) + 1"
    by (rule int_div_pos_eq)
  then show ?thesis by simp
qed
lemma day_hour:
  "(a::int) * 24 + b = q \<Longrightarrow> a * 86400000 + (b + 1) * 3600000 = (q + 1) * 3600000"
  by (auto simp: algebra_simps)

lemma localTime_nextMilestoneTime:
  "localTime h (nextMilestoneTime h S) = (localTime h S div 1800000 + 1) * 1800000"
proof -
  define L where "L = localTime h S"
  define M where "M = L div 60000"
  have Lh: "L div 3600000 = M div 60" unfolding M_def by (rule div_hour)
  have Ld: "L div 86400000 = (M div 60) div 24" unfolding M_def by (rule div_day)
  have Lhh: "L div 1800000 = M div 30" unfolding M_def by (rule div_half_hour)
  have m: "getMinutes h S = M mod 60"
    by (simp add: getMinutes_def L_def M_def msPerMinute_def)
  have hr: "getHours h S = (L div 3600000) mod 24"
    by (simp add: getHours_def L_def msPerHour_def)
  show ?thesis
  proof (cases "getMinutes h S < 30")
    case True
    then have "localTime h (nextMilestoneTime h S) = (L div 3600000) * 3600000 + 1800000"
      by (simp add: nextMilestoneTime_def setMinutes_def localTime_def L_def Let_def
            msPerMinute_def msPerHour_def)
    also have "\<dots> = ((M div 60) * 60 + 30) * 60000"
      by (simp add: Lh)
    also have "(M div 60) * 60 + 30 = (M div 30 + 1) * 30"
      using True m half_hour_low [of M] by simp
    also have "(M div 30 + 1) * 30 * 60000 = (L div 1800000 + 1) * 1800000"
      by (simp add: Lhh)
    finally show ?thesis by (simp only: L_def)
  next
    case False
    then have "localTime h (nextMilestoneTime h S) =
        (L div 86400000) * 86400000 + ((L div 3600000) mod 24 + 1) * 3600000"
      by (simp add: nextMilestoneTime_def setHours_def hr localTime_def L_def
            Let_def msPerMinute_def msPerHour_def msPerDay_def)
    also have "\<dots> = (M div 60 + 1) * 3600000"
    proof -
      define q where "q = M div 60"
      have "q div 24 * 24 + q mod 24 = q" by simp
      then have "q div 24 * 86400000 + (q mod 24 + 1) * 3600000 = (q + 1) * 3600000"
        by (rule day_hour)
      then show ?thesis by (simp only: Lh Ld q_def)
    qed
    also have "(M div 60 + 1) * 3600000 = ((M div 60 + 1) * 60) * 60000" by simp
    also have "(M div 60 + 1) * 60 = (M div 30 + 1) * 30"
      using False m half_hour_high [of M] by simp
    also have "(M div 30 + 1) * 30 * 60000 = (L div 1800000 + 1) * 1800000"
      by (simp add: Lhh)
    finally show ?thesis by (simp only: L_def)
  qed
qed

lemma nextMilestoneTime_minutes:
  "localTime h (nextMilestoneTime h S) div 60000 =
     (if getMinutes h S < 30 then (localTime h S div 60000 div 60) * 60 + 30
      else (localTime h S div 60000 div 60 + 1) * 60)"
proof -
  define M where "M = localTime h S div 60000"
  have m: "getMinutes h S = M mod 60"
    by (simp add: getMinutes_def M_def msPerMinute_def)
  have "localTime h S div 1800000 = M div 30"
    unfolding M_def by (rule div_half_hour)
  then have "localTime h (nextMilestoneTime h S) = (M div 30 + 1) * 30 * 60000"
    by (simp add: localTime_nextMilestoneTime)
  then have "localTime h (nextMilestoneTime h S) div 60000 = (M div 30 + 1) * 30"
    by simp
  with m half_hour_low [of M] half_hour_high [of M] show ?thesis
    by (simp add: M_def)
qed

lemma getHours_minutes: "getHours h d = (localTime h d div 60000 div 60) mod 24"
  by (simp add: getHours_def msPerHour_def div_hour [symmetric])

lemma getMinutes_minutes: "getMinutes h d = (localTime h d div 60000) mod 60"
  by (simp add: getMinutes_def msPerMinute_def)

lemma nextMilestoneTime_clock:
  "(getMinutes h S < 30 \<longrightarrow>
      getHours h (nextMilestoneTime h S) = getHours h S
      \<and> getMinutes h (nextMilestoneTime h S) = 30)
   \<and> (30 \<le> getMinutes h S \<longrightarrow>
      getHours h (nextMilestoneTime h S) = (getHours h S + 1) mod 24
      \<and> getMinutes h (nextMilestoneTime h S) = 0)"
proof -
  define q where "q = localTime h S div 60000 div 60"
  define T where "T = nextMilestoneTime h S"
  have hS: "getHours h S = q mod 24"
    unfolding q_def by (rule getHours_minutes)
  have hT: "getHours h T = (localTime h T div 60000 div 60) mod 24"
    by (rule getHours_minutes)
  have mT: "getMinutes h T = (localTime h T div 60000) mod 60"
    by (rule getMinutes_minutes)
  have low: "getHours h T = getHours h S \<and> getMinutes h T = 30" if "getMinutes h S < 30"
  proof -
    from that have c: "localTime h T div 60000 = q * 60 + 30"
      unfolding q_def T_def by (simp add: nextMilestoneTime_minutes)
    have "(q * 60 + 30) div 60 = q" and "(q * 60 + 30) mod 60 = 30" by simp_all
    then show ?thesis by (simp only: hT mT hS c)
  qed
  have high: "getHours h T = (getHours h S + 1) mod 24 \<and> getMinutes h T = 0"
    if "30 \<le> getMinutes h S"
  proof -
    from that have c: "localTime h T div 60000 = (q + 1) * 60"
      unfolding q_def T_def by (simp add: nextMilestoneTime_minutes)
    have "(q + 1) * 60 div 60 = q + 1" and "(q + 1) * 60 mod 60 = 0"
      and "(q + 1) mod 24 = (q mod 24 + 1) mod 24"
      by (simp_all add: mod_add_left_eq)
    then show ?thesis by (simp only: hT mT hS c)
  qed
  from low high show ?thesis unfolding T_def by blast
qed

lemma nextMilestoneTime_after:
  "S < nextMilestoneTime h S \<and> nextMilestoneTime h S \<le> S + 30 * msPerMinute"
proof -
  define L where "L = localTime h S"
  have d: "nextMilestoneTime h S - S = localTime h (nextMilestoneTime h S) - L"
    by (simp add: localTime_def L_def)
  have e: "L div 1800000 * 1800000 + L mod 1800000 = L" by simp
  have "0 \<le> L mod 1800000" and "L mod 1800000 < 1800000" by simp_all
  with e have "L < (L div 1800000 + 1) * 1800000"
    and "(L div 1800000 + 1) * 1800000 \<le> L + 1800000"
    by (simp_all add: algebra_simps)
  with d show ?thesis
    by (simp add: localTime_nextMilestoneTime L_def msPerMinute_def)
qed

lemma nextMilestoneTime_on_boundary:
  assumes "localTime h S mod (30 * msPerMinute) = 0"
  shows "nextMilestoneTime h S = S + 30 * msPerMinute"
proof -
  define L where "L = localTime h S"
  from assms have "L mod 1800000 = 0" by (simp add: L_def msPerMinute_def)
  then have "L div 1800000 * 1800000 = L" by (simp add: mod_0_imp_dvd)
  then have "(L div 1800000 + 1) * 1800000 = L + 1800000" by (simp add: algebra_simps)
  then have "localTime h (nextMilestoneTime h S) = localTime h S + 1800000"
    by (simp add: localTime_nextMilestoneTime L_def)
  then show ?thesis by (simp add: localTime_def msPerMinute_def)
qed

lemma getNextMilestone_success:
  assumes "success (calculateSunsetInfo h loc now)"
    and "sunsetInfo (calculateSunsetInfo h loc now) = Some info"
  shows "getNextMilestone h loc now =
     (let nextTime = nextMilestoneTime h (sunset info)
      in case findSunsetAfterTime h loc nextTime now 365 of
           None \<Rightarrow>
             \<lparr> milestone = None, next_sunsetInfo = None, daysUntil = 0,
               next_error = Some ''Could not find when sunset reaches next milestone'' \<rparr>
         | Some result \<Rightarrow>
             \<lparr> milestone = Some \<lparr> time = nextTime, type = getMilestoneType h nextTime,
                                  label = formatMilestoneLabel h nextTime (getMilestoneType h nextTime),
                                  isPrimary = True \<rparr>,
               next_sunsetInfo =
                 (if success (calculateSunsetInfo h loc (match_date result))
                  then sunsetInfo (calculateSunsetInfo h loc (match_date result))
                  else Some info),
               daysUntil = ceilDays (match_date result) now, next_error = None \<rparr>)"
  using assms by (simp add: getNextMilestone_def Let_def split: option.splits)

text \<open>
  Claim C4. In \<open>getNextMilestone\<close> today's sunset is rounded up to the next 30-minute
  boundary of the host's clock: for a sunset minute below 30 the target is :30 of the same
  hour, from 30 on it is :00 of the next hour (hour 0 of the next day after hour 23). The
  target is strictly after the sunset, at most 30 minutes after it, and on a boundary; a
  sunset exactly on a boundary gets the following one. That boundary is the target of the
  365-day search, and the time of the milestone returned.
\<close>

theorem getNextMilestone_rounds_up_to_boundary:
  "(getMinutes h S < 30 \<longrightarrow>
      getHours h (nextMilestoneTime h S) = getHours h S
      \<and> getMinutes h (nextMilestoneTime h S) = 30)
   \<and> (30 \<le> getMinutes h S \<longrightarrow>
      getHours h (nextMilestoneTime h S) = (getHours h S + 1) mod 24
      \<and> getMinutes h (nextMilestoneTime h S) = 0)
   \<and> S < nextMilestoneTime h S
   \<and> nextMilestoneTime h S \<le> S + 30 * msPerMinute
   \<and> localTime h (nextMilestoneTime h S) mod (30 * msPerMinute) = 0
   \<and> (localTime h S mod (30 * msPerMinute) = 0 \<longrightarrow> nextMilestoneTime h S = S + 30 * msPerMinute)
   \<and> (\<forall>loc now info.
         success (calculateSunsetInfo h loc now)
         \<and> sunsetInfo (calculateSunsetInfo h loc now) = Some info \<and> sunset info = S \<longrightarrow>
           (milestone (getNextMilestone h loc now) = None \<longleftrightarrow>
              findSunsetAfterTime h loc (nextMilestoneTime h S) now 365 = None)
           \<and> (\<forall>m. milestone (getNextMilestone h loc now) = Some m \<longrightarrow>
                 time m = nextMilestoneTime h S \<and> isPrimary m))"
proof (intro conjI)
  show "getMinutes h S < 30 \<longrightarrow>
      getHours h (nextMilestoneTime h S) = getHours h S
      \<and> getMinutes h (nextMilestoneTime h S) = 30"
    using nextMilestoneTime_clock [of h S] by (rule conjunct1)
  show "30 \<le> getMinutes h S \<longrightarrow>
      getHours h (nextMilestoneTime h S) = (getHours h S + 1) mod 24
      \<and> getMinutes h (nextMilestoneTime h S) = 0"
    using nextMilestoneTime_clock [of h S] by (rule conjunct2)
  show "S < nextMilestoneTime h S" and "nextMilestoneTime h S \<le> S + 30 * msPerMinute"
    using nextMilestoneTime_after [of S h] by simp_all
  show "localTime h (nextMilestoneTime h S) mod (30 * msPerMinute) = 0"
    by (simp add: localTime_nextMilestoneTime msPerMinute_def)
  show "localTime h S mod (30 * msPerMinute) = 0 \<longrightarrow> nextMilestoneTime h S = S + 30 * msPerMinute"
    by (simp add: nextMilestoneTime_on_boundary)
  show "\<forall>loc now info.
         success (calculateSunsetInfo h loc now)
         \<and> sunsetInfo (calculateSunsetInfo h loc now) = Some info \<and> sunset info = S \<longrightarrow>
           (milestone (getNextMilestone h loc now) = None \<longleftrightarrow>
              findSunsetAfterTime h loc (nextMilestoneTime h S) now 365 = None)
           \<and> (\<forall>m. milestone (getNextMilestone h loc now) = Some m \<longrightarrow>
                 time m = nextMilestoneTime h S \<and> isPrimary m)"
  proof (intro allI impI)
    fix loc now info
    assume a: "success (calculateSunsetInfo h loc now)
         \<and> sunsetInfo (calculateSunsetInfo h loc now) = Some info \<and> sunset info = S"
    then have "getNextMilestone h loc now =
     (let nextTime = nextMilestoneTime h S
      in case findSunsetAfterTime h loc nextTime now 365 of
           None \<Rightarrow>
             \<lparr> milestone = None, next_sunsetInfo = None, daysUntil = 0,
               next_error = Some ''Could not find when sunset reaches next milestone'' \<rparr>
         | Some result \<Rightarrow>
             \<lparr> milestone = Some \<lparr> time = nextTime, type = getMilestoneType h nextTime,
                                  label = formatMilestoneLabel h nextTime (getMilestoneType h nextTime),
                                  isPrimary = True \<rparr>,
               next_sunsetInfo =
                 (if success (calculateSunsetInfo h loc (match_date result))
                  then sunsetInfo (calculateSunsetInfo h loc (match_date result))
                  else Some info),
               daysUntil = ceilDays (match_date result) now, next_error = None \<rparr>)"
      using getNextMilestone_success [of h loc now info] by simp
    then show "(milestone (getNextMilestone h loc now) = None \<longleftrightarrow>
              findSunsetAfterTime h loc (nextMilestoneTime h S) now 365 = None)
           \<and> (\<forall>m. milestone (getNextMilestone h loc now) = Some m \<longrightarrow>
                 time m = nextMilestoneTime h S \<and> isPrimary m)"
      by (auto simp: Let_def split: option.splits)
  qed
qed

theorem getNextMilestone_rounds_up_to_boundary_witness:
  "getHours (driftHost 1180 10) 70800000 = 19 \<and> getMinutes (driftHost 1180 10) 70800000 = 40
   \<and> getHours (driftHost 1180 10) (nextMilestoneTime (driftHost 1180 10) 70800000) = (19 + 1) mod 24
   \<and> getMinutes (driftHost 1180 10) (nextMilestoneTime (driftHost 1180 10) 70800000) = 0
   \<and> nextMilestoneTime (driftHost 1180 10) 70800000 = 72000000
   \<and> getHours (driftHost 1180 10) 69000000 = 19 \<and> getMinutes (driftHost 1180 10) 69000000 = 10
   \<and> getHours (driftHost 1180 10) (nextMilestoneTime (driftHost 1180 10) 69000000) = 19
   \<and> getMinutes (driftHost 1180 10) (nextMilestoneTime (driftHost 1180 10) 69000000) = 30
   \<and> getHours (driftHost 1180 10) 70200000 = 19 \<and> getMinutes (driftHost 1180 10) 70200000 = 30
   \<and> nextMilestoneTime (driftHost 1180 10) 70200000 = 70200000 + 30 * msPerMinute
   \<and> sunsetInfo (calculateSunsetInfo (driftHost 1180 10) seattle 0) =
        Some \<lparr> sunset = 70800000, sunrise = 21600000, location = seattle, date = 0,
               timezone = ''UTC'', hasSunset = True \<rparr>
   \<and> milestone (getNextMilestone (driftHost 1180 10) seattle 0) =
        Some \<lparr> time = 72000000, type = hour, label = ''8:00 PM'', isPrimary = True \<rparr>
   \<and> time (the (milestone (getNextMilestone (driftHost 1180 10) seattle 0))) =
        nextMilestoneTime (driftHost 1180 10) 70800000
   \<and> findSunsetAfterTime (driftHost 1180 10) seattle
         (nextMilestoneTime (driftHost 1180 10) 70800000) 0 365 \<noteq> None"
proof -
  let ?h = "driftHost 1180 10"
  have late: "getHours ?h 70800000 = 19" "getMinutes ?h 70800000 = 40"
    and early: "getHours ?h 69000000 = 19" "getMinutes ?h 69000000 = 10"
    and exact: "getHours ?h 70200000 = 19" "getMinutes ?h 70200000 = 30"
    and onb: "localTime ?h 70200000 mod (30 * msPerMinute) = 0"
    and val: "nextMilestoneTime ?h 70800000 = 72000000"
    by code_simp+
  have today: "success (calculateSunsetInfo ?h seattle 0)
      \<and> sunsetInfo (calculateSunsetInfo ?h seattle 0) =
            Some \<lparr> sunset = 70800000, sunrise = 21600000, location = seattle, date = 0,
                   timezone = ''UTC'', hasSunset = True \<rparr>
      \<and> sunset \<lparr> sunset = 70800000, sunrise = 21600000, location = seattle, date = 0,
                   timezone = ''UTC'', hasSunset = True \<rparr> = 70800000"
    by code_simp
  have ms: "milestone (getNextMilestone ?h seattle 0) =
        Some \<lparr> time = 72000000, type = hour, label = ''8:00 PM'', isPrimary = True \<rparr>"
    by code_simp
  note a = getNextMilestone_rounds_up_to_boundary [of ?h 70800000]
  note b = getNextMilestone_rounds_up_to_boundary [of ?h 69000000]
  note c = getNextMilestone_rounds_up_to_boundary [of ?h 70200000]
  from a late have "getHours ?h (nextMilestoneTime ?h 70800000) = (19 + 1) mod 24
      \<and> getMinutes ?h (nextMilestoneTime ?h 70800000) = 0"
    by simp
  moreover from b early have "getHours ?h (nextMilestoneTime ?h 69000000) = 19
      \<and> getMinutes ?h (nextMilestoneTime ?h 69000000) = 30"
    by simp
  moreover from c onb have "nextMilestoneTime ?h 70200000 = 70200000 + 30 * msPerMinute"
    by blast
  moreover
  note s = a [THEN conjunct2, THEN conjunct2, THEN conjunct2, THEN conjunct2, THEN conjunct2,
              THEN conjunct2, rule_format, OF today]
  from s ms have "time (the (milestone (getNextMilestone ?h seattle 0))) =
        nextMilestoneTime ?h 70800000"
    by auto
  moreover from s ms have "findSunsetAfterTime ?h seattle (nextMilestoneTime ?h 70800000) 0 365 \<noteq> None"
    by auto
  ultimately show ?thesis
    using late early exact val today ms by auto
qed

section \<open>The upcoming milestones\<close>

lemma getHours_range: "0 \<le> getHours h d \<and> getHours h d < 24"
  by (simp add: getHours_def)

lemma getMinutes_range: "0 \<le> getMinutes h d \<and> getMinutes h d < 60"
  by (simp add: getMinutes_def)

lemma upcoming_from_unfold:
  "getUpcomingMilestones_from h loc now count i cur ms =
     (if i < count
      then (if pastLadder h (cur + 1800000)
            then ms
            else (case findSunsetAfterTime h loc (cur + 1800000) now 365 of
                    Some result \<Rightarrow>
                      getUpcomingMilestones_from h loc now count (i + 1) (cur + 1800000)
                        (ms @ [\<lparr> time = cur + 1800000,
                                  type = getMilestoneType h (cur + 1800000),
                                  label = formatMilestoneLabel h (cur + 1800000)
                                            (getMilestoneType h (cur + 1800000)),
                                  isPrimary = False,
                                  targetDate = sunsetTime result,
                                  upcoming_daysUntil = ceilDays (sunsetTime result) now \<rparr>])
                  | None \<Rightarrow>
                      getUpcomingMilestones_from h loc now count (i + 1) (cur + 1800000) ms))
      else ms)"
  by (subst getUpcomingMilestones_from.simps) (simp add: Let_def pastLadder_def)

lemma upcoming_from_invariant:
  assumes "\<forall>m \<in> set ms. P m"
    and "\<And>t d n. \<not> pastLadder h t \<Longrightarrow>
           P \<lparr> time = t, type = getMilestoneType h t,
               label = formatMilestoneLabel h t (getMilestoneType h t),
               isPrimary = False, targetDate = d, upcoming_daysUntil = n \<rparr>"
  shows "\<forall>m \<in> set (getUpcomingMilestones_from h loc now count i cur ms). P m"
  using assms(1)
proof (induction "nat (count - i)" arbitrary: i cur ms)
  case 0
  then have "\<not> i < count" by simp
  with "0.prems" show ?case
    by (subst upcoming_from_unfold) simp
next
  case (Suc k)
  then have lt: "i < count" and k: "k = nat (count - (i + 1))" by linarith+
  show ?case
  proof (cases "pastLadder h (cur + 1800000)")
    case True
    with lt Suc.prems show ?thesis
      by (subst upcoming_from_unfold) simp
  next
    case False
    show ?thesis
    proof (cases "findSunsetAfterTime h loc (cur + 1800000) now 365")
      case None
      with lt False Suc.hyps(1) [OF k Suc.prems] show ?thesis
        by (subst upcoming_from_unfold) simp
    next
      case (Some result)
      let ?m = "\<lparr> time = cur + 1800000,
                  type = getMilestoneType h (cur + 1800000),
                  label = formatMilestoneLabel h (cur + 1800000)
                            (getMilestoneType h (cur + 1800000)),
                  isPrimary = False,
                  targetDate = sunsetTime result,
                  upcoming_daysUntil = ceilDays (sunsetTime result) now \<rparr>"
      from False have "P ?m" by (rule assms(2))
      with Suc.prems have "\<forall>m \<in> set (ms @ [?m]). P m" by simp
      from Suc.hyps(1) [OF k this] lt False Some show ?thesis
        by (subst upcoming_from_unfold) simp
    qed
  qed
qed

lemma upcoming_from_eq:
  "getUpcomingMilestones_from h loc now count i cur ms =
     ms @ List.map_filter
            (\<lambda>t. map_option (upcomingEntry h now t) (findSunsetAfterTime h loc t now 365))
            (takeWhile (\<lambda>t. \<not> pastLadder h t) (upcomingCandidates cur (count - i)))"
proof (induction "nat (count - i)" arbitrary: i cur ms)
  case 0
  then have "\<not> i < count" by simp
  with 0 show ?case
    by (subst upcoming_from_unfold) (simp add: upcomingCandidates_def map_filter_simps)
next
  case (Suc k)
  then have lt: "i < count" and k: "k = nat (count - (i + 1))" by linarith+
  from Suc.hyps(2) have n: "nat (count - i) = Suc (nat (count - (i + 1)))" by linarith
  have c: "upcomingCandidates cur (count - i) =
             (cur + 1800000) # upcomingCandidates (cur + 1800000) (count - (i + 1))"
    unfolding upcomingCandidates_def n
    by (simp add: upt_conv_Cons del: upt_Suc) (simp add: map_Suc_upt [symmetric] algebra_simps del: upt_Suc)
  show ?case
  proof (cases "pastLadder h (cur + 1800000)")
    case True
    with lt show ?thesis
      by (subst upcoming_from_unfold) (simp add: c map_filter_simps)
  next
    case False
    show ?thesis
    proof (cases "findSunsetAfterTime h loc (cur + 1800000) now 365")
      case None
      with lt False Suc.hyps(1) [OF k, of "cur + 1800000" ms] show ?thesis
        by (subst upcoming_from_unfold) (simp add: c map_filter_simps)
    next
      case (Some r)
      with lt False
        Suc.hyps(1) [OF k, of "cur + 1800000" "ms @ [upcomingEntry h now (cur + 1800000) r]"]
      show ?thesis
        by (subst upcoming_from_unfold) (simp add: c map_filter_simps upcomingEntry_def)
    qed
  qed
qed

lemma upcoming_at_most_2130:
  "\<forall>m \<in> set (getUpcomingMilestones h loc now count).
     timeOfDay h (time m) \<le> 21 * 60 + 30
     \<and> (getHours h (time m) < 21 \<or> (getHours h (time m) = 21 \<and> getMinutes h (time m) \<le> 30))
     \<and> \<not> isPrimary m"
proof (cases "milestone (getNextMilestone h loc now)")
  case None
  then show ?thesis by (simp add: getUpcomingMilestones_def)
next
  case (Some p)
  have "\<forall>m \<in> set (getUpcomingMilestones_from h loc now count 0 (time p) []).
     timeOfDay h (time m) \<le> 21 * 60 + 30
     \<and> (getHours h (time m) < 21 \<or> (getHours h (time m) = 21 \<and> getMinutes h (time m) \<le> 30))
     \<and> \<not> isPrimary m"
  proof (rule upcoming_from_invariant)
    show "\<forall>m \<in> set []. timeOfDay h (time m) \<le> 21 * 60 + 30
     \<and> (getHours h (time m) < 21 \<or> (getHours h (time m) = 21 \<and> getMinutes h (time m) \<le> 30))
     \<and> \<not> isPrimary m" by simp
  next
    fix t d n
    assume "\<not> pastLadder h t"
    then have g: "\<not> (getHours h t > 21 \<or> (getHours h t = 21 \<and> getMinutes h t > 30))"
      by (simp add: pastLadder_def)
    from getMinutes_range [of h t] have "getMinutes h t < 60" by simp
    with g have "getHours h t * 60 + getMinutes h t \<le> 21 * 60 + 30" by linarith
    with g show "timeOfDay h (time \<lparr> time = t, type = getMilestoneType h t,
               label = formatMilestoneLabel h t (getMilestoneType h t),
               isPrimary = False, targetDate = d, upcoming_daysUntil = n \<rparr>) \<le> 21 * 60 + 30
     \<and> (getHours h (time \<lparr> time = t, type = getMilestoneType h t,
               label = formatMilestoneLabel h t (getMilestoneType h t),
               isPrimary = False, targetDate = d, upcoming_daysUntil = n \<rparr>) < 21
        \<or> (getHours h (time \<lparr> time = t, type = getMilestoneType h t,
               label = formatMilestoneLabel h t (getMilestoneType h t),
               isPrimary = False, targetDate = d, upcoming_daysUntil = n \<rparr>) = 21
           \<and> getMinutes h (time \<lparr> time = t, type = getMilestoneType h t,
               label = formatMilestoneLabel h t (getMilestoneType h t),
               isPrimary = False, targetDate = d, upcoming_daysUntil = n \<rparr>) \<le> 30))
     \<and> \<not> isPrimary \<lparr> time = t, type = getMilestoneType h t,
               label = formatMilestoneLabel h t (getMilestoneType h t),
               isPrimary = False, targetDate = d, upcoming_daysUntil = n \<rparr>"
      by (auto simp: timeOfDay_def)
  qed
  with Some show ?thesis by (simp add: getUpcomingMilestones_def)
qed

text \<open>
  Claim C3 as stated does not hold: with a sunset at 20:40 today that moves 30 minutes later
  each day, the primary milestone is 21:00 and the list of upcoming milestones holds the
  slot at 21:30.
\<close>

theorem getUpcomingMilestones_counterexample:
  "getUpcomingMilestones (driftHost 1240 30) seattle 0 4 =
     [\<lparr> time = 77400000, type = half_hour, label = ''9:30 PM'', isPrimary = False,
        targetDate = 250800000, upcoming_daysUntil = 3 \<rparr>]
   \<and> getHours (driftHost 1240 30) 77400000 = 21
   \<and> getMinutes (driftHost 1240 30) 77400000 = 30
   \<and> \<not> timeOfDay (driftHost 1240 30) 77400000 \<le> 21 * 60"
  by code_simp

text \<open>
  Claim C3, amended. The candidates of \<open>getUpcomingMilestones\<close> are the 30-minute steps
  after the primary milestone, \<open>count\<close> of them at most. The iteration stops at the first
  candidate past 21:30 (hour above 21, or hour 21 with minute above 30): the list returned
  holds, in order, the candidates before that one whose search finds a match, and nothing
  of what follows it. So every milestone returned has a clock time at or before 21:30 and
  is not primary; the slots at 21:00 and at 21:30 may appear and a slot at 22:00 never does.
\<close>

theorem getUpcomingMilestones_stops_past_2130:
  "getUpcomingMilestones h loc now count =
     (case milestone (getNextMilestone h loc now) of
        None \<Rightarrow> []
      | Some p \<Rightarrow>
          List.map_filter
            (\<lambda>t. map_option (upcomingEntry h now t) (findSunsetAfterTime h loc t now 365))
            (takeWhile (\<lambda>t. \<not> pastLadder h t) (upcomingCandidates (time p) count)))
   \<and> (\<forall>m \<in> set (getUpcomingMilestones h loc now count).
         timeOfDay h (time m) \<le> 21 * 60 + 30
         \<and> (getHours h (time m) < 21
              \<or> (getHours h (time m) = 21 \<and> getMinutes h (time m) \<le> 30))
         \<and> \<not> isPrimary m)"
proof (rule conjI)
  show "getUpcomingMilestones h loc now count =
     (case milestone (getNextMilestone h loc now) of
        None \<Rightarrow> []
      | Some p \<Rightarrow>
          List.map_filter
            (\<lambda>t. map_option (upcomingEntry h now t) (findSunsetAfterTime h loc t now 365))
            (takeWhile (\<lambda>t. \<not> pastLadder h t) (upcomingCandidates (time p) count)))"
    by (simp add: getUpcomingMilestones_def upcoming_from_eq split: option.splits)
next
  show "\<forall>m \<in> set (getUpcomingMilestones h loc now count).
         timeOfDay h (time m) \<le> 21 * 60 + 30
         \<and> (getHours h (time m) < 21
              \<or> (getHours h (time m) = 21 \<and> getMinutes h (time m) \<le> 30))
         \<and> \<not> isPrimary m"
    by (rule upcoming_at_most_2130)
qed

theorem getUpcomingMilestones_stops_past_2130_witness:
  "milestone (getNextMilestone (driftHost 1240 30) seattle 0) =
     Some \<lparr> time = 75600000, type = hour, label = ''9:00 PM'', isPrimary = True \<rparr>
   \<and> upcomingCandidates 75600000 10 =
       [77400000, 79200000, 81000000, 82800000, 84600000, 86400000, 88200000, 90000000,
        91800000, 93600000]
   \<and> takeWhile (\<lambda>t. \<not> pastLadder (driftHost 1240 30) t) (upcomingCandidates 75600000 10) =
       [77400000]
   \<and> pastLadder (driftHost 1240 30) 79200000
   \<and> \<not> pastLadder (driftHost 1240 30) 86400000
   \<and> findSunsetAfterTime (driftHost 1240 30) seattle 86400000 0 365 \<noteq> None
   \<and> getUpcomingMilestones (driftHost 1240 30) seattle 0 10 =
       [\<lparr> time = 77400000, type = half_hour, label = ''9:30 PM'', isPrimary = False,
          targetDate = 250800000, upcoming_daysUntil = 3 \<rparr>]
   \<and> timeOfDay (driftHost 1240 30) 77400000 \<le> 21 * 60 + 30
   \<and> timeOfDay (driftHost 1240 30) 77400000 = 1290"
proof -
  let ?h = "driftHost 1240 30"
  have p: "milestone (getNextMilestone ?h seattle 0) =
     Some \<lparr> time = 75600000, type = hour, label = ''9:00 PM'', isPrimary = True \<rparr>"
    by code_simp
  have c: "upcomingCandidates 75600000 10 =
       [77400000, 79200000, 81000000, 82800000, 84600000, 86400000, 88200000, 90000000,
        91800000, 93600000]"
    by code_simp
  have tw: "takeWhile (\<lambda>t. \<not> pastLadder ?h t) (upcomingCandidates 75600000 10) = [77400000]"
    by code_simp
  have past: "pastLadder ?h 79200000" and wrap: "\<not> pastLadder ?h 86400000"
    and wrapfound: "findSunsetAfterTime ?h seattle 86400000 0 365 \<noteq> None"
    and v: "timeOfDay ?h 77400000 = 1290"
    by code_simp+
  have e: "List.map_filter
            (\<lambda>t. map_option (upcomingEntry ?h 0 t) (findSunsetAfterTime ?h seattle t 0 365))
            [77400000] =
       [\<lparr> time = 77400000, type = half_hour, label = ''9:30 PM'', isPrimary = False,
          targetDate = 250800000, upcoming_daysUntil = 3 \<rparr>]"
    by code_simp
  note w = getUpcomingMilestones_stops_past_2130 [of ?h seattle 0 10]
  from w [THEN conjunct1] p tw e
  have l: "getUpcomingMilestones ?h seattle 0 10 =
       [\<lparr> time = 77400000, type = half_hour, label = ''9:30 PM'', isPrimary = False,
          targetDate = 250800000, upcoming_daysUntil = 3 \<rparr>]"
    by simp
  then have "\<lparr> time = 77400000, type = half_hour, label = ''9:30 PM'', isPrimary = False,
          targetDate = 250800000, upcoming_daysUntil = 3 \<rparr>
          \<in> set (getUpcomingMilestones ?h seattle 0 10)"
    by simp
  from w [THEN conjunct2, rule_format, OF this]
  have "timeOfDay ?h 77400000 \<le> 21 * 60 + 30" by simp
  with p c tw past wrap wrapfound l v show ?thesis by simp
qed

section \<open>The countdown\<close>










section \<open>The fallback of the next milestone\<close>

text \<open>With a stateless library the functions with state are the functions above.\<close>

lemma handlePolarRegionS_stateless:
  "handlePolarRegionS h (statelessLibrary h) loc d s = (handlePolarRegion h loc d, s)"
  by (auto simp: handlePolarRegionS_def handlePolarRegion_def statelessLibrary_def Let_def
        split: sum.splits option.splits)

lemma calculateSunsetInfoS_stateless:
  "calculateSunsetInfoS h (statelessLibrary h) loc d s = (calculateSunsetInfo h loc d, s)"
proof (cases "\<bar>latitude loc\<bar> > 66.5")
  case True
  then show ?thesis
    by (simp add: calculateSunsetInfoS_def calculateSunsetInfo_def handlePolarRegionS_stateless
          split: sum.splits)
next
  case False
  then show ?thesis
    by (auto simp: calculateSunsetInfoS_def calculateSunsetInfo_def statelessLibrary_def
          split: sum.splits option.splits)
qed

lemma findSunsetAfterTimeS_from_stateless:
  "findSunsetAfterTimeS_from h (statelessLibrary h) loc t startDate n i s =
     (findSunsetAfterTime_from h loc t startDate n i, s)"
proof (induction "nat (n - i)" arbitrary: i)
  case 0
  then have "\<not> i < n" by simp
  then show ?case
    by (subst findSunsetAfterTimeS_from.simps, subst findSunsetAfterTime_from.simps) simp
next
  case (Suc k)
  then have lt: "i < n" and k: "k = nat (n - (i + 1))" by linarith+
  from Suc.hyps(1) [OF k] lt show ?case
    by (subst findSunsetAfterTimeS_from.simps, subst findSunsetAfterTime_from.simps)
       (auto simp: calculateSunsetInfoS_stateless Let_def)
qed

lemma findSunsetAfterTimeS_stateless:
  "findSunsetAfterTimeS h (statelessLibrary h) loc t startDate n s =
     (findSunsetAfterTime h loc t startDate n, s)"
  by (simp add: findSunsetAfterTimeS_def findSunsetAfterTime_def
        findSunsetAfterTimeS_from_stateless Let_def)

lemma getNextMilestoneS_stateless:
  "getNextMilestoneS h (statelessLibrary h) loc now s = (getNextMilestone h loc now, s)"
  by (simp add: getNextMilestoneS_def getNextMilestone_def calculateSunsetInfoS_stateless
        findSunsetAfterTimeS_stateless Let_def split: option.splits)

lemma followup_query_succeeds:
  assumes "findSunsetAfterTime h loc t now n = Some r"
  shows "success (calculateSunsetInfo h loc (match_date r))"
proof -
  from assms have "findSunsetAfterTime_from h loc (timeOfDay h t) now n 0 = Some r"
    by (simp add: findSunsetAfterTime_def timeOfDay_def Let_def)
  from find_from_Some [OF this] show ?thesis
    by (auto simp: qualifies_iff)
qed

text \<open>
  Claim C10. If in \<open>getNextMilestone\<close> today's query succeeds, the search finds a match,
  and the follow-up query for the matched date fails, then the milestone is still returned,
  with \<open>daysUntil\<close> counted to the matched date and without an error, and the sunset info
  returned is today's. With a library that is a function of its arguments the follow-up
  query repeats a query the search has seen succeed (\<open>followup_query_succeeds\<close>), so the
  case needs a library whose answers change between calls.
\<close>

theorem getNextMilestone_falls_back_to_today:
  assumes "calculateSunsetInfoS h lib loc now s0 = (todayResult, s1)"
    and "success todayResult"
    and "sunsetInfo todayResult = Some todayInfo"
    and "findSunsetAfterTimeS h lib loc (nextMilestoneTime h (sunset todayInfo)) now 365 s1 =
           (Some r, s2)"
    and "calculateSunsetInfoS h lib loc (match_date r) s2 = (future, s3)"
    and "\<not> success future"
  shows "getNextMilestoneS h lib loc now s0 =
           (\<lparr> milestone =
                Some \<lparr> time = nextMilestoneTime h (sunset todayInfo),
                       type = getMilestoneType h (nextMilestoneTime h (sunset todayInfo)),
                       label = formatMilestoneLabel h (nextMilestoneTime h (sunset todayInfo))
                                 (getMilestoneType h (nextMilestoneTime h (sunset todayInfo))),
                       isPrimary = True \<rparr>,
              next_sunsetInfo = Some todayInfo,
              daysUntil = ceilDays (match_date r) now,
              next_error = None \<rparr>, s3)"
  using assms by (simp add: getNextMilestoneS_def Let_def)

theorem getNextMilestone_falls_back_to_today_witness:
  "calculateSunsetInfoS (driftHost 1180 10) (fadingLibrary 8 1180 10) seattle 0 0 =
     (\<lparr> success = True,
        sunsetInfo = Some \<lparr> sunset = 70800000, sunrise = 21600000, location = seattle,
                            date = 0, timezone = ''UTC'', hasSunset = True \<rparr>,
        error = None, isPolarRegion = None, polarType = None \<rparr>, 2)
   \<and> findSunsetAfterTimeS (driftHost 1180 10) (fadingLibrary 8 1180 10) seattle 72000000 0 365 2 =
     (Some \<lparr> match_date = 172800000, sunsetTime = 244800000 \<rparr>, 8)
   \<and> calculateSunsetInfoS (driftHost 1180 10) (fadingLibrary 8 1180 10) seattle 172800000 8 =
     (genericFailure, 10)
   \<and> getNextMilestoneS (driftHost 1180 10) (fadingLibrary 8 1180 10) seattle 0 0 =
     (\<lparr> milestone = Some \<lparr> time = 72000000, type = hour, label = ''8:00 PM'',
                            isPrimary = True \<rparr>,
        next_sunsetInfo = Some \<lparr> sunset = 70800000, sunrise = 21600000, location = seattle,
                                 date = 0, timezone = ''UTC'', hasSunset = True \<rparr>,
        daysUntil = 2, next_error = None \<rparr>, 10)"
proof -
  let ?h = "driftHost 1180 10" and ?lib = "fadingLibrary 8 1180 10"
  let ?info = "\<lparr> sunset = 70800000, sunrise = 21600000, location = seattle,
                 date = 0, timezone = ''UTC'', hasSunset = True \<rparr>"
  let ?today = "\<lparr> success = True, sunsetInfo = Some ?info,
                  error = None, isPolarRegion = None, polarType = None \<rparr>"
  have today: "calculateSunsetInfoS ?h ?lib seattle 0 0 = (?today, 2)"
    by code_simp
  have ok: "success ?today" and info: "sunsetInfo ?today = Some ?info"
    by simp_all
  have nt: "nextMilestoneTime ?h 70800000 = 72000000"
    by code_simp
  have search: "findSunsetAfterTimeS ?h ?lib seattle (nextMilestoneTime ?h (sunset ?info)) 0 365 2 =
     (Some \<lparr> match_date = 172800000, sunsetTime = 244800000 \<rparr>, 8)"
    by code_simp
  have follow: "calculateSunsetInfoS ?h ?lib seattle
                  (match_date \<lparr> match_date = 172800000, sunsetTime = 244800000 \<rparr>) 8 =
     (genericFailure, 10)"
    by code_simp
  have fails: "\<not> success genericFailure"
    by (simp add: genericFailure_def)
  have vals: "getMilestoneType ?h 72000000 = hour"
    "formatMilestoneLabel ?h 72000000 hour = ''8:00 PM''"
    "ceilDays 172800000 0 = 2"
    by code_simp+
  from getNextMilestone_falls_back_to_today [OF today ok info search follow fails]
  have "getNextMilestoneS ?h ?lib seattle 0 0 =
     (\<lparr> milestone = Some \<lparr> time = 72000000, type = hour, label = ''8:00 PM'',
                            isPrimary = True \<rparr>,
        next_sunsetInfo = Some ?info, daysUntil = 2, next_error = None \<rparr>, 10)"
    by (simp add: nt vals)
  with today search follow nt show ?thesis by simp
qed

end
